theory Spec2Isabelle
  imports Complex_Main "HOL-Library.Word"
begin

section \<open>JavaScript strings\<close>

text \<open>
  A JavaScript string is a sequence of 16-bit code units.  The literals of the source are
  written with \<open>js\<close> from their ASCII spelling; a code unit beyond ASCII is given by its
  number (\<open>0xE9\<close> is e-acute).
\<close>

type_synonym jsstring = "16 word list"

definition js :: "string \<Rightarrow> jsstring" where
  "js s = map (\<lambda>c. of_nat (of_char c)) s"

text \<open>
  \<open>String.prototype.trim\<close> removes, at both ends, the code units that ECMAScript calls
  WhiteSpace or LineTerminator.  All of them lie in the basic plane, so the test is on
  single code units.
\<close>

definition is_js_whitespace :: "16 word \<Rightarrow> bool" where
  "is_js_whitespace c =
     (c = 0x09 \<or> c = 0x0A \<or> c = 0x0B \<or> c = 0x0C \<or> c = 0x0D \<or> c = 0x20 \<or> c = 0xA0
      \<or> c = 0x1680 \<or> (0x2000 \<le> c \<and> c \<le> 0x200A) \<or> c = 0x2028 \<or> c = 0x2029
      \<or> c = 0x202F \<or> c = 0x205F \<or> c = 0x3000 \<or> c = 0xFEFF)"

definition trim :: "jsstring \<Rightarrow> jsstring" where
  "trim s = rev (dropWhile is_js_whitespace (rev (dropWhile is_js_whitespace s)))"

text \<open>\<open>s.endsWith(t)\<close>: the last \<open>length t\<close> code units of \<open>s\<close> are \<open>t\<close>.\<close>

definition endsWith :: "jsstring \<Rightarrow> jsstring \<Rightarrow> bool" where
  "endsWith s t = (length t \<le> length s \<and> drop (length s - length t) s = t)"

text \<open>A string is truthy when it is not empty.\<close>

definition truthy_str :: "jsstring \<Rightarrow> bool" where
  "truthy_str s = (s \<noteq> [])"

section \<open>QueryForm\<close>

text \<open>
  The component keeps the question and the selected API key (initially \<open>'tenantA_key'\<close>).
  \<open>handleSubmit\<close> calls the \<open>onSubmit\<close> property, or does nothing: the result is the call
  made, if any.
\<close>

record query_form =
  question :: jsstring
  apiKey :: jsstring

definition QueryForm_init :: query_form where
  "QueryForm_init = \<lparr>question = [], apiKey = js ''tenantA_key''\<rparr>"

definition handleSubmit :: "(jsstring \<Rightarrow> jsstring \<Rightarrow> 'r) \<Rightarrow> query_form \<Rightarrow> 'r option" where
  "handleSubmit onSubmit st =
     (if truthy_str (trim (question st)) then Some (onSubmit (question st) (apiKey st))
      else None)"

text \<open>The submit button's \<open>disabled\<close> attribute: \<open>loading || !question.trim()\<close>.\<close>

definition submit_disabled :: "bool \<Rightarrow> query_form \<Rightarrow> bool" where
  "submit_disabled loading st = (loading \<or> \<not> truthy_str (trim (question st)))"

section \<open>JavaScript values\<close>

text \<open>
  The values that \<open>response.json()\<close> can return, and \<open>undefined\<close> for a property that
  is not there.  A number is given by its rational value.  An object is the list of its
  own properties; a lookup takes the first entry of a key.
\<close>

datatype jsval =
  JUndefined | JNull | JBool bool | JNum rat | JStr jsstring
  | JArr "jsval list" | JObj "(jsstring \<times> jsval) list"

fun truthy :: "jsval \<Rightarrow> bool" where
  "truthy JUndefined = False"
| "truthy JNull = False"
| "truthy (JBool b) = b"
| "truthy (JNum r) = (r \<noteq> 0)"
| "truthy (JStr s) = (s \<noteq> [])"
| "truthy (JArr xs) = True"
| "truthy (JObj kvs) = True"

text \<open>
  \<open>v.p\<close> for a value \<open>v\<close> that is neither \<open>null\<close> nor \<open>undefined\<close> (reading a property of
  those throws, which the callers below check first).  The property names read by the
  source are data fields and \<open>length\<close>; no inherited method is read through \<open>get_prop\<close>.
\<close>

fun get_prop :: "jsval \<Rightarrow> string \<Rightarrow> jsval" where
  "get_prop (JObj kvs) p = (case map_of kvs (js p) of None \<Rightarrow> JUndefined | Some v \<Rightarrow> v)"
| "get_prop (JArr xs) p = (if p = ''length'' then JNum (of_nat (length xs)) else JUndefined)"
| "get_prop (JStr s) p = (if p = ''length'' then JNum (of_nat (length s)) else JUndefined)"
| "get_prop v p = JUndefined"

definition nullish :: "jsval \<Rightarrow> bool" where
  "nullish v = (v = JUndefined \<or> v = JNull)"

text \<open>\<open>v?.p\<close>: \<open>undefined\<close> when \<open>v\<close> is \<open>null\<close> or \<open>undefined\<close>.\<close>

definition opt_prop :: "jsval \<Rightarrow> string \<Rightarrow> jsval" where
  "opt_prop v p = (if nullish v then JUndefined else get_prop v p)"

text \<open>A thrown error, as far as the source looks at it: its \<open>message\<close>.\<close>

datatype js_exn = Exn (message: jsstring)

text \<open>The decimal digits of a number, as a template literal prints a status code.\<close>

fun decimal :: "nat \<Rightarrow> jsstring" where
  "decimal n =
     (if n < 10 then [of_nat (48 + n)] else decimal (n div 10) @ [of_nat (48 + n mod 10)])"

declare decimal.simps [simp del]

section \<open>The fetch interface\<close>

record js_file =
  name :: jsstring
  size_bytes :: nat

datatype body =
  NoBody
  | JsonStringify jsval
  | FormData "(jsstring \<times> js_file) list"

record request =
  url :: jsstring
  http_method :: jsstring
  headers :: "(jsstring \<times> jsstring) list"
  body :: body

text \<open>
  What \<open>await fetch(...)\<close> gives: the promise rejects (no response), or there is a
  response with a status code, whose \<open>json()\<close> in turn yields a value or rejects.
\<close>

datatype fetch_outcome =
  Rejected js_exn
  | Responded nat "js_exn + jsval"

definition ok :: "nat \<Rightarrow> bool" where
  "ok status = (200 \<le> status \<and> status \<le> 299)"

text \<open>
  The network is a function from the request to its outcome; every request sent is
  appended to the list of requests sent.
\<close>

definition fetch ::
  "(request \<Rightarrow> fetch_outcome) \<Rightarrow> request \<Rightarrow> request list \<Rightarrow> fetch_outcome \<times> request list" where
  "fetch respond r sent = (respond r, sent @ [r])"

section \<open>The API service\<close>

text \<open>\<open>import.meta.env.VITE_API_URL || 'http://localhost:8000'\<close>; the variable may be unset.\<close>

definition API_BASE_URL :: "jsstring option \<Rightarrow> jsstring" where
  "API_BASE_URL env =
     (case env of
        None \<Rightarrow> js ''http://localhost:8000''
      | Some u \<Rightarrow> if truthy_str u then u else js ''http://localhost:8000'')"

definition invalid_key_message :: jsstring where
  "invalid_key_message = js ''Cl'' @ [0xE9] @ js '' API invalide ou manquante''"

definition query_request :: "jsstring option \<Rightarrow> jsstring \<Rightarrow> jsstring \<Rightarrow> request" where
  "query_request env q key =
     \<lparr>url = API_BASE_URL env @ js ''/query'',
      http_method = js ''POST'',
      headers = [(js ''Content-Type'', js ''application/json''), (js ''X-API-KEY'', key)],
      body = JsonStringify (JObj [(js ''question'', JStr q)])\<rparr>"

definition queryDocuments ::
  "(request \<Rightarrow> fetch_outcome) \<Rightarrow> jsstring option \<Rightarrow> jsstring \<Rightarrow> jsstring \<Rightarrow> request list
     \<Rightarrow> (js_exn + jsval) \<times> request list" where
  "queryDocuments respond env q key sent =
     (case fetch respond (query_request env q key) sent of
        (Rejected e, sent') \<Rightarrow> (Inl e, sent')
      | (Responded status json, sent') \<Rightarrow>
          if \<not> ok status then
            if status = 401 then (Inl (Exn invalid_key_message), sent')
            else (Inl (Exn (js ''Erreur serveur: '' @ decimal status)), sent')
          else (json, sent'))"

definition health_request :: "jsstring option \<Rightarrow> request" where
  "health_request env =
     \<lparr>url = API_BASE_URL env @ js ''/health'', http_method = js ''GET'', headers = [],
      body = NoBody\<rparr>"

definition checkHealth ::
  "(request \<Rightarrow> fetch_outcome) \<Rightarrow> jsstring option \<Rightarrow> request list
     \<Rightarrow> (js_exn + jsval) \<times> request list" where
  "checkHealth respond env sent =
     (case fetch respond (health_request env) sent of
        (Rejected e, sent') \<Rightarrow> (Inl e, sent')
      | (Responded status json, sent') \<Rightarrow> (json, sent'))"

section \<open>Rendered elements\<close>

text \<open>
  What a component returns: elements with a tag, a \<open>className\<close> and children, fragments,
  literal text, and the values placed in \<open>{...}\<close> slots.  Event handlers and keys are not
  part of the tree.
\<close>

datatype vnode =
  Elem string string "vnode list"
  | Fragment "vnode list"
  | Text jsstring
  | Expr jsval

text \<open>The elements of a tree that carry a given \<open>className\<close>, in document order.\<close>

fun elems_with_class :: "string \<Rightarrow> vnode \<Rightarrow> vnode list" where
  "elems_with_class c (Elem t cls kids) =
     (if cls = c then [Elem t cls kids] else []) @ concat (map (elems_with_class c) kids)"
| "elems_with_class c (Fragment kids) = concat (map (elems_with_class c) kids)"
| "elems_with_class c (Text s) = []"
| "elems_with_class c (Expr v) = []"

text \<open>The values in the \<open>{...}\<close> slots of a tree, in document order.\<close>

fun exprs :: "vnode \<Rightarrow> jsval list" where
  "exprs (Elem t cls kids) = concat (map exprs kids)"
| "exprs (Fragment kids) = concat (map exprs kids)"
| "exprs (Text s) = []"
| "exprs (Expr v) = [v]"

section \<open>ErrorMessage\<close>

definition ErrorMessage :: "jsstring option \<Rightarrow> vnode option" where
  "ErrorMessage err =
     (case err of
        None \<Rightarrow> None
      | Some e \<Rightarrow>
          if \<not> truthy_str e then None
          else Some (Elem ''div'' ''error-message''
            [Elem ''div'' ''error-content''
              [Elem ''span'' ''error-icon'' [Text [0x26A0, 0xFE0F] ],
               Elem ''div'' ''error-text''
                 [Elem ''strong'' [] [Text (js ''Erreur:'')], Text (js '' ''), Expr (JStr e)],
               Elem ''button'' ''error-dismiss'' [Text [0x2715] ] ] ]))"

section \<open>QueryResults\<close>

text \<open>Reading a property of \<open>null\<close> or \<open>undefined\<close>, or calling what is no function.\<close>

datatype type_error = TypeError

text \<open>The callback of \<open>sources.map\<close>: one \<open>source-item\<close> element per source.\<close>

definition source_item :: "jsval \<Rightarrow> type_error + vnode" where
  "source_item source =
     (if nullish source then Inl TypeError
      else Inr (Elem ''div'' ''source-item''
        [Elem ''div'' ''source-header''
          [Elem ''span'' ''source-doc''
             [Text ([0xD83D, 0xDCC4] @ js '' ''),
              Elem ''strong'' [] [Expr (get_prop source ''doc_id'')] ],
           Elem ''span'' ''source-meta''
             [Text (js ''Chunk ''), Expr (get_prop source ''chunk_id''),
              Text (js '' '' @ [0x2022] @ js '' Score: ''),
              Elem ''code'' [] [Expr (get_prop source ''score'')] ] ],
         Elem ''div'' ''source-excerpt'' [Expr (get_prop source ''excerpt'')] ]))"

fun map_sources :: "jsval list \<Rightarrow> type_error + vnode list" where
  "map_sources [] = Inr []"
| "map_sources (source # rest) =
     (case source_item source of
        Inl e \<Rightarrow> Inl e
      | Inr item \<Rightarrow>
          (case map_sources rest of Inl e \<Rightarrow> Inl e | Inr items \<Rightarrow> Inr (item # items)))"

text \<open>
  The body of the second \<open>results-section\<close>: the \<open>no-sources\<close> paragraph when
  \<open>!sources || sources.length === 0\<close>, the \<open>sources-list\<close> otherwise.
  Only an array has a \<open>map\<close> method; the items are the children of the list element.
\<close>

definition sources_view :: "jsval \<Rightarrow> type_error + vnode" where
  "sources_view sources =
     (if \<not> truthy sources \<or> get_prop sources ''length'' = JNum 0
      then Inr (Elem ''p'' ''no-sources'' [Text (js ''Aucune source trouv'' @ [0xE9] @ js ''e'')])
      else (case sources of
              JArr xs \<Rightarrow>
                (case map_sources xs of
                   Inl e \<Rightarrow> Inl e
                 | Inr items \<Rightarrow> Inr (Elem ''div'' ''sources-list'' items))
            | _ \<Rightarrow> Inl TypeError))"

text \<open>The body of the first \<open>results-section\<close>: the notice, or the answer box.\<close>

definition answer_view :: "jsval \<Rightarrow> jsval \<Rightarrow> vnode" where
  "answer_view no_answer answer =
     (if truthy no_answer
      then Elem ''div'' ''no-answer-message''
             [Text ([0x2139, 0xFE0F] @ js '' Aucune r'' @ [0xE9]
                @ js ''ponse possible pour ce client (pas de passage pertinent dans ses documents).'')]
      else Elem ''div'' ''answer-box'' [Elem ''pre'' [] [Expr answer] ])"

definition QueryResults :: "jsval \<Rightarrow> type_error + vnode option" where
  "QueryResults result =
     (if \<not> truthy result then Inr None
      else
        let tenant_id = get_prop result ''tenant_id'';
            answer = get_prop result ''answer'';
            sources = get_prop result ''sources'';
            no_answer = get_prop result ''no_answer''
        in (case sources_view sources of
              Inl e \<Rightarrow> Inl e
            | Inr sources_body \<Rightarrow>
                Inr (Some (Elem ''div'' ''query-results''
                  [Elem ''div'' ''tenant-badge''
                     [Elem ''strong'' [] [Text ([0xD83D, 0xDCCD] @ js '' Tenant:'')],
                      Text (js '' ''), Expr tenant_id],
                   Elem ''div'' ''results-section''
                     [Elem ''h2'' [] [Text ([0xD83D, 0xDCAC] @ js '' R'' @ [0xE9] @ js ''ponse'')],
                      answer_view no_answer answer],
                   Elem ''div'' ''results-section''
                     [Elem ''h2'' [] [Text ([0xD83D, 0xDCDA] @ js '' Sources'')],
                      sources_body] ]))))"

section \<open>App\<close>

record app_state =
  result :: jsval
  error :: "jsstring option"
  loading :: bool
  backendStatus :: jsval
  activeTab :: jsstring

definition App_init :: app_state where
  "App_init =
     \<lparr>result = JNull, error = None, loading = False, backendStatus = JNull,
      activeTab = js ''search''\<rparr>"

text \<open>
  The effect with the empty dependency list runs once, when the component is mounted:
  \<open>checkHealth().then((status) => setBackendStatus(status))
  .catch(() => setBackendStatus({ status: 'error' }))\<close>.
  \<open>health_settle\<close> is what the two callbacks do with the outcome of \<open>checkHealth\<close>.
\<close>

definition health_settle :: "js_exn + jsval \<Rightarrow> app_state \<Rightarrow> app_state" where
  "health_settle r s =
     (case r of
        Inr status \<Rightarrow> s\<lparr>backendStatus := status\<rparr>
      | Inl e \<Rightarrow> s\<lparr>backendStatus := JObj [(js ''status'', JStr (js ''error''))]\<rparr>)"

text \<open>
  \<open>handleQuery\<close> in its two parts: the three updates before the request, and what follows
  the \<open>await\<close>, with the \<open>finally\<close> block applied on either path.
\<close>

definition handleQuery_begin :: "app_state \<Rightarrow> app_state" where
  "handleQuery_begin s = s\<lparr>loading := True, error := None, result := JNull\<rparr>"

definition handleQuery_settle :: "js_exn + jsval \<Rightarrow> app_state \<Rightarrow> app_state" where
  "handleQuery_settle r s =
     (case r of
        Inr data \<Rightarrow> s\<lparr>result := data, loading := False\<rparr>
      | Inl err \<Rightarrow>
          s\<lparr>error := Some (if truthy_str (message err) then message err
                             else js ''Une erreur est survenue''),
            loading := False\<rparr>)"

text \<open>The whole of \<open>handleQuery\<close>, when nothing else happens while it waits.\<close>

definition handleQuery ::
  "(request \<Rightarrow> fetch_outcome) \<Rightarrow> jsstring option \<Rightarrow> jsstring \<Rightarrow> jsstring \<Rightarrow> app_state
     \<Rightarrow> request list \<Rightarrow> app_state \<times> request list" where
  "handleQuery respond env q key s sent =
     (case queryDocuments respond env q key sent of
        (r, sent') \<Rightarrow> (handleQuery_settle r (handleQuery_begin s), sent'))"

text \<open>The \<open>onDismiss\<close> property given to \<open>ErrorMessage\<close>.\<close>

definition dismiss_error :: "app_state \<Rightarrow> app_state" where
  "dismiss_error s = s\<lparr>error := None\<rparr>"

text \<open>The status badge of the header.\<close>

definition backend_status :: "jsval \<Rightarrow> vnode" where
  "backend_status st =
     Elem ''div'' ''backend-status''
       [if opt_prop st ''status'' = JStr (js ''ok'')
        then Fragment
               [Elem ''div'' ''status-indicator'' [],
                Elem ''span'' ''status-ok''
                  [Text (js ''Syst'' @ [0xE8] @ js ''me op'' @ [0xE9] @ js ''rationnel'')] ]
        else if opt_prop st ''status'' = JStr (js ''error'')
        then Fragment
               [Elem ''div'' ''status-indicator'' [],
                Elem ''span'' ''status-error'' [Text (js ''Service indisponible'')] ]
        else Fragment
               [Elem ''div'' ''status-indicator'' [],
                Elem ''span'' ''status-loading'' [Text (js ''Connexion en cours...'')] ] ]"

text \<open>
  What the search tab shows below the form: the error message and the results, each
  possibly nothing.
\<close>

definition search_view :: "app_state \<Rightarrow> type_error + vnode option \<times> vnode option" where
  "search_view s =
     (case QueryResults (result s) of
        Inl e \<Rightarrow> Inl e
      | Inr results \<Rightarrow> Inr (ErrorMessage (error s), results))"

subsection \<open>The running application\<close>

text \<open>
  The application with its surroundings: the component state, the requests sent so far,
  and the promises not yet settled, each with the outcome it will have.  Mounting renders
  the initial state and runs the effect, which sends the health request.
\<close>

record app_world =
  app :: app_state
  requests :: "request list"
  health_promise :: "(js_exn + jsval) option"
  query_promises :: "(js_exn + jsval) list"

definition App_mount :: "(request \<Rightarrow> fetch_outcome) \<Rightarrow> jsstring option \<Rightarrow> app_world" where
  "App_mount respond env =
     (case checkHealth respond env [] of
        (r, sent') \<Rightarrow>
          \<lparr>app = App_init, requests = sent', health_promise = Some r, query_promises = []\<rparr>)"

text \<open>
  What can happen next.  The form is submitted with its current contents: the browser
  lets that through only while the submit button is enabled, and then \<open>handleSubmit\<close>
  runs with \<open>handleQuery\<close> as \<open>onSubmit\<close>, up to its \<open>await\<close>.  A pending query or the
  health check settles, and the rest of its handler runs.  The error is dismissed.  A tab
  is chosen.
\<close>

datatype app_event =
  SubmitForm query_form
  | QuerySettles
  | HealthSettles
  | DismissError
  | SetActiveTab jsstring

fun app_step ::
  "(request \<Rightarrow> fetch_outcome) \<Rightarrow> jsstring option \<Rightarrow> app_world \<Rightarrow> app_event \<Rightarrow> app_world" where
  "app_step respond env w (SubmitForm form) =
     (if submit_disabled (loading (app w)) form then w
      else (case handleSubmit Pair form of
              None \<Rightarrow> w
            | Some (q, key) \<Rightarrow>
                (case queryDocuments respond env q key (requests w) of
                   (r, sent') \<Rightarrow>
                     w\<lparr>app := handleQuery_begin (app w), requests := sent',
                       query_promises := query_promises w @ [r]\<rparr>)))"
| "app_step respond env w QuerySettles =
     (case query_promises w of
        [] \<Rightarrow> w
      | r # rest \<Rightarrow> w\<lparr>app := handleQuery_settle r (app w), query_promises := rest\<rparr>)"
| "app_step respond env w HealthSettles =
     (case health_promise w of
        None \<Rightarrow> w
      | Some r \<Rightarrow> w\<lparr>app := health_settle r (app w), health_promise := None\<rparr>)"
| "app_step respond env w DismissError = w\<lparr>app := dismiss_error (app w)\<rparr>"
| "app_step respond env w (SetActiveTab tab) = w\<lparr>app := (app w)\<lparr>activeTab := tab\<rparr>\<rparr>"

definition app_run ::
  "(request \<Rightarrow> fetch_outcome) \<Rightarrow> jsstring option \<Rightarrow> app_event list \<Rightarrow> app_world" where
  "app_run respond env events = foldl (app_step respond env) (App_mount respond env) events"

section \<open>UploadDocument\<close>

record upload_state =
  file_upload :: "js_file option"
  uploading :: bool
  success :: "jsval option"
  error_upload :: "jsstring option"
  apiKey_upload :: jsstring

definition UploadDocument_init :: upload_state where
  "UploadDocument_init =
     \<lparr>file_upload = None, uploading = False, success = None, error_upload = None,
      apiKey_upload = js ''tenantA_key''\<rparr>"

text \<open>
  \<open>handleFileChange\<close> receives the event's file list; \<open>files[0]\<close> of an empty list is
  \<open>undefined\<close>, and then nothing happens.
\<close>

definition handleFileChange :: "js_file list \<Rightarrow> upload_state \<Rightarrow> upload_state" where
  "handleFileChange files st =
     (case files of
        [] \<Rightarrow> st
      | selectedFile # _ \<Rightarrow>
          if \<not> endsWith (name selectedFile) (js ''.txt'') then
            st\<lparr>error_upload := Some (js ''Seuls les fichiers .txt sont accept'' @ [0xE9] @ js ''s''),
               file_upload := None\<rparr>
          else if size_bytes selectedFile = 0 then
            st\<lparr>error_upload := Some (js ''Le fichier est vide''), file_upload := None\<rparr>
          else if size_bytes selectedFile > 5 * 1024 * 1024 then
            st\<lparr>error_upload := Some (js ''Le fichier est trop volumineux (max 5MB)''),
               file_upload := None\<rparr>
          else st\<lparr>file_upload := Some selectedFile, error_upload := None, success := None\<rparr>)"

text \<open>\<open>handleDrop\<close> receives the files of the drop's \<open>dataTransfer\<close>.\<close>

definition handleDrop :: "js_file list \<Rightarrow> upload_state \<Rightarrow> upload_state" where
  "handleDrop files st =
     (case files of
        [] \<Rightarrow> st
      | droppedFile # _ \<Rightarrow> handleFileChange [droppedFile] st)"

definition upload_request :: "jsstring \<Rightarrow> js_file \<Rightarrow> request" where
  "upload_request key f =
     \<lparr>url = js ''http://localhost:8000/upload'',
      http_method = js ''POST'',
      headers = [(js ''X-API-KEY'', key)],
      body = FormData [(js ''file'', f)]\<rparr>"

text \<open>
  \<open>handleUpload\<close> up to its \<open>await fetch\<close>: the state then, and the request sent, if any.
  The handling of the response is not part of this development.
\<close>

definition handleUpload :: "upload_state \<Rightarrow> upload_state \<times> request option" where
  "handleUpload st =
     (case file_upload st of
        None \<Rightarrow>
          (st\<lparr>error_upload := Some (js ''Veuillez s'' @ [0xE9] @ js ''lectionner un fichier'')\<rparr>,
           None)
      | Some f \<Rightarrow>
          (st\<lparr>uploading := True, error_upload := None, success := None\<rparr>,
           Some (upload_request (apiKey_upload st) f)))"

text \<open>The upload button is rendered only under \<open>file &&\<close>.\<close>

definition upload_button_shown :: "upload_state \<Rightarrow> bool" where
  "upload_button_shown st = (file_upload st \<noteq> None)"

section \<open>The retrieval-and-answer engine\<close>

text \<open>
  The server behind the three endpoints is part of the repository but not of the sources
  at hand, so this section follows the specification, sections 3 to 5.
\<close>

text \<open>
  Modelled from the spec: a tenant identifier (section 3; the server's types are missing).
\<close>

type_synonym tenant_id = string

text \<open>
  Modelled from the spec: a credential, an opaque key (section 3; the server's types are
  missing).
\<close>

type_synonym credential = string

text \<open>
  Modelled from the spec: the Chunk of the data model (the server's chunk type is
  missing).  A chunk has an owning tenant, an owning document, a sequence number, the
  offset of its span and the text of the span.
\<close>

record chunk =
  chunk_owner :: tenant_id
  chunk_doc :: string
  chunk_seq :: nat
  chunk_offset :: nat
  chunk_text :: string

text \<open>
  Modelled from the spec: the error taxonomy of section 7, as far as the two request
  paths surface it (the server's exception types are missing).
\<close>

datatype engine_error = AuthenticationError | ValidationError

text \<open>
  Modelled from the spec: the retrieval mode of section 4.5, \<open>semantic\<close>, \<open>lexical\<close> or
  \<open>none\<close> (the server's retrieval code is missing).
\<close>

datatype retrieval_mode = Semantic | Lexical | NoMode

text \<open>
  Modelled from the spec: a ranked chunk with its score, from which a cited source of
  the response is made (the server's response types are missing).
\<close>

record source =
  src_chunk :: chunk
  src_score :: rat

text \<open>
  Modelled from the spec: the response of \<open>POST /query\<close> in section 6, with the flag of
  section 4.6 for an answer given without the generation provider (the server's response
  types are missing).  The sources are kept as ranked chunks, so that the owner of a
  source is the owner of its chunk.
\<close>

record response =
  resp_tenant :: tenant_id
  resp_answer :: string
  resp_sources :: "source list"
  resp_no_answer :: bool
  resp_degraded :: bool

text \<open>
  Modelled from the spec: what the specification leaves to configuration or to external
  collaborators (the server's configuration and its providers are missing).  The registry
  maps a credential to at most one tenant; the window and the overlap of the chunker;
  the size bound and the format test of ingestion; the similarity scores of the two
  indexes, the semantic one failing when its provider is unavailable; the thresholds; the
  number of chunks retrieved; the generation provider, which may fail, and the test for
  its decline signal; the context budget and the length of an excerpt.
\<close>

record engine_params =
  registry :: "credential \<Rightarrow> tenant_id option"
  window :: nat
  overlap :: nat
  max_size :: nat
  accepted_format :: "string \<Rightarrow> string \<Rightarrow> bool"
  doc_id_of :: "string \<Rightarrow> string"
  semantic_score :: "string \<Rightarrow> (chunk \<Rightarrow> rat) option"
  lexical_score :: "chunk list \<Rightarrow> string \<Rightarrow> chunk \<Rightarrow> rat"
  T_sem :: rat
  T_min :: rat
  top_k :: nat
  generate :: "string \<Rightarrow> string \<Rightarrow> string option"
  declines :: "string \<Rightarrow> bool"
  context_budget :: nat
  excerpt_length :: nat

text \<open>
  Modelled from the spec: the Tenant Registry of section 4.1 (\<open>tenants.py\<close> is missing).
  \<open>resolve\<close> fails with \<open>AuthenticationError\<close> for a credential that is not registered.
\<close>

definition resolve :: "engine_params \<Rightarrow> credential \<Rightarrow> engine_error + tenant_id" where
  "resolve p c = (case registry p c of None \<Rightarrow> Inl AuthenticationError | Some t \<Rightarrow> Inr t)"

text \<open>
  Modelled from the spec: the Chunker of section 4.2 (the server's chunker is missing).
  Chunk \<open>i\<close> starts at \<open>i * (W - O)\<close> and ends at \<open>min (start + W) (length text)\<close>; the
  iteration stops once the chunk produced reaches the end of the text.
\<close>

function chunk_from :: "nat \<Rightarrow> nat \<Rightarrow> nat \<Rightarrow> string \<Rightarrow> (nat \<times> string) list" where
  "chunk_from w ov start text =
     (if ov < w \<and> start < length text
      then (start, take w (drop start text))
           # (if length text \<le> start + w then [] else chunk_from w ov (start + (w - ov)) text)
      else [])"
  by pat_completeness auto
termination
  by (relation "measure (\<lambda>(w, ov, start, text). length text - start)") auto

declare chunk_from.simps [simp del]

text \<open>
  Modelled from the spec: the degenerate case of section 4.2 (the server's chunker is
  missing): the empty text is a \<open>ValidationError\<close>, not an empty sequence.
\<close>

definition chunk_text_of :: "engine_params \<Rightarrow> string \<Rightarrow> engine_error + (nat \<times> string) list" where
  "chunk_text_of p text =
     (if text = [] then Inl ValidationError else Inr (chunk_from (window p) (overlap p) 0 text))"

text \<open>
  Modelled from the spec: the order of document ids (the server's indexes are missing).
  A ranking breaks ties by the lowest chunk id, and a chunk id is the document id with
  the sequence number; document ids are compared as strings.
\<close>

fun str_less :: "string \<Rightarrow> string \<Rightarrow> bool" where
  "str_less [] [] = False"
| "str_less [] (y # ys) = True"
| "str_less (x # xs) [] = False"
| "str_less (x # xs) (y # ys) =
     ((of_char x :: nat) < of_char y \<or> (x = y \<and> str_less xs ys))"

text \<open>
  Modelled from the spec: the order of a ranking (the server's indexes are missing): the
  higher score first, and among equal scores the lower chunk id.
\<close>

definition ranks_before :: "source \<Rightarrow> source \<Rightarrow> bool" where
  "ranks_before a b =
     (src_score b < src_score a
      \<or> (src_score a = src_score b
          \<and> (str_less (chunk_doc (src_chunk a)) (chunk_doc (src_chunk b))
              \<or> (chunk_doc (src_chunk a) = chunk_doc (src_chunk b)
                  \<and> chunk_seq (src_chunk a) \<le> chunk_seq (src_chunk b)))))"

text \<open>
  Modelled from the spec: the insertion of one scored chunk into a ranking (the server's
  indexes are missing).
\<close>

fun rank_insert :: "source \<Rightarrow> source list \<Rightarrow> source list" where
  "rank_insert a [] = [a]"
| "rank_insert a (b # bs) = (if ranks_before a b then a # b # bs else b # rank_insert a bs)"

text \<open>
  Modelled from the spec: the ranking of scored chunks, cut to the \<open>k\<close> best (the server's
  indexes are missing).
\<close>

definition rank :: "nat \<Rightarrow> source list \<Rightarrow> source list" where
  "rank k xs = take k (foldr rank_insert xs [])"

text \<open>
  Modelled from the spec: the query of the Lexical Index of section 4.3 (the server's
  index is missing).  It ranks the chunks of the snapshot it is given, and gives the empty
  ranking for the empty snapshot.
\<close>

definition lexical_query :: "engine_params \<Rightarrow> chunk list \<Rightarrow> string \<Rightarrow> source list" where
  "lexical_query p snapshot q =
     rank (top_k p)
       (map (\<lambda>c. \<lparr>src_chunk = c, src_score = lexical_score p snapshot q c\<rparr>) snapshot)"

text \<open>
  Modelled from the spec: the query of the Semantic Index of section 4.4 (the server's
  index is missing).  It fails with \<open>ProviderUnavailable\<close>, here \<open>None\<close>, when the
  embedding of the question cannot be had.
\<close>

definition semantic_query :: "engine_params \<Rightarrow> chunk list \<Rightarrow> string \<Rightarrow> source list option" where
  "semantic_query p snapshot q =
     (case semantic_score p q of
        None \<Rightarrow> None
      | Some score \<Rightarrow>
          Some (rank (top_k p) (map (\<lambda>c. \<lparr>src_chunk = c, src_score = score c\<rparr>) snapshot)))"

text \<open>
  Modelled from the spec: the Retrieval Engine of section 4.5 (the server's retrieval
  code is missing), on the snapshots a query has acquired.
\<close>

definition retrieve ::
  "engine_params \<Rightarrow> chunk list \<Rightarrow> chunk list \<Rightarrow> string \<Rightarrow> source list \<times> retrieval_mode" where
  "retrieve p sem_snapshot lex_snapshot q =
     (let chosen =
        (case semantic_query p sem_snapshot q of
           Some ranked \<Rightarrow>
             if \<exists>s \<in> set ranked. T_sem p < src_score s then (ranked, Semantic)
             else (lexical_query p lex_snapshot q, Lexical)
         | None \<Rightarrow> (lexical_query p lex_snapshot q, Lexical))
      in (case fst chosen of
            [] \<Rightarrow> ([], NoMode)
          | best # _ \<Rightarrow> if src_score best < T_min p then ([], NoMode) else chosen))"

text \<open>
  Modelled from the spec: the bounded context of section 4.6 (the server's synthesis code
  is missing): the chunks, the best first, with separators, cut to the budget.
\<close>

definition build_context :: "engine_params \<Rightarrow> source list \<Rightarrow> string" where
  "build_context p ranked =
     take (context_budget p) (concat (map (\<lambda>s. chunk_text (src_chunk s) @ [CHR 0x0A]) ranked))"

text \<open>
  Modelled from the spec: the Answer Synthesizer of section 4.6 (the server's synthesis
  code is missing).  The result is the answer, the no-answer flag and the degraded flag.
\<close>

definition synthesize :: "engine_params \<Rightarrow> string \<Rightarrow> source list \<Rightarrow> string \<times> bool \<times> bool" where
  "synthesize p q ranked =
     (case ranked of
        [] \<Rightarrow> ([], True, False)
      | best # _ \<Rightarrow>
          (case generate p q (build_context p ranked) of
             None \<Rightarrow> (take (excerpt_length p) (chunk_text (src_chunk best)), False, True)
           | Some out \<Rightarrow> if out = [] \<or> declines p out then ([], True, False)
                         else (out, False, False)))"

text \<open>
  Modelled from the spec: the read path of section 2 for a query that has resolved its
  tenant and acquired that tenant's snapshots (the server's \<open>/query\<close> handler is
  missing).
\<close>

definition answer_query ::
  "engine_params \<Rightarrow> tenant_id \<Rightarrow> chunk list \<Rightarrow> chunk list \<Rightarrow> string \<Rightarrow> response" where
  "answer_query p t sem_snapshot lex_snapshot q =
     (case retrieve p sem_snapshot lex_snapshot q of
        (ranked, mode) \<Rightarrow>
          (case synthesize p q ranked of
             (text, none, fallback) \<Rightarrow>
               \<lparr>resp_tenant = t, resp_answer = text, resp_sources = ranked, resp_no_answer = none,
                resp_degraded = fallback\<rparr>))"

text \<open>
  Modelled from the spec: the chunks of a new document (the server's \<open>/upload\<close> handler
  is missing), numbered in order and each owned by the ingesting tenant.
\<close>

definition make_chunks :: "tenant_id \<Rightarrow> string \<Rightarrow> (nat \<times> string) list \<Rightarrow> chunk list" where
  "make_chunks t doc spans =
     map (\<lambda>(i, (off, txt)).
            \<lparr>chunk_owner = t, chunk_doc = doc, chunk_seq = i, chunk_offset = off,
             chunk_text = txt\<rparr>)
       (zip [0 ..< length spans] spans)"

text \<open>
  Modelled from the spec: the Ingestion Pipeline of section 4.7 up to the swap (the
  server's \<open>/upload\<close> handler is missing): validation, then chunking.
\<close>

definition prepare_ingest ::
  "engine_params \<Rightarrow> tenant_id \<Rightarrow> string \<Rightarrow> string \<Rightarrow> engine_error + (string \<times> chunk list)" where
  "prepare_ingest p t filename content =
     (if content = [] \<or> max_size p < length content \<or> \<not> accepted_format p filename content
      then Inl ValidationError
      else (case chunk_text_of p content of
              Inl e \<Rightarrow> Inl e
            | Inr spans \<Rightarrow> Inr (doc_id_of p filename, make_chunks t (doc_id_of p filename) spans)))"

text \<open>
  Modelled from the spec: the new snapshot of a tenant's index on ingestion (section 3):
  the chunks of the document supersede its prior chunks.
\<close>

definition supersede :: "string \<Rightarrow> chunk list \<Rightarrow> chunk list \<Rightarrow> chunk list" where
  "supersede doc new snapshot = filter (\<lambda>c. chunk_doc c \<noteq> doc) snapshot @ new"

text \<open>
  Modelled from the spec: an ingestion in progress (section 5; the server's scheduling is
  missing), from its validation until it swaps in both new snapshots in one step, or
  fails and leaves the old ones.
\<close>

record ingestion =
  ing_tenant :: tenant_id
  ing_doc :: string
  ing_chunks :: "chunk list"

text \<open>
  Modelled from the spec: a query in progress (section 5; the server's scheduling is
  missing).  It has resolved its tenant and holds the snapshots it acquired.
\<close>

record reader =
  rd_credential :: credential
  rd_tenant :: tenant_id
  rd_question :: string
  rd_semantic :: "chunk list"
  rd_lexical :: "chunk list"

text \<open>
  Modelled from the spec: a query that has been answered, with its credential and what
  it was given (the server's \<open>/query\<close> handler is missing).
\<close>

record answered =
  by_credential :: credential
  to_question :: string
  outcome :: "engine_error + response"

text \<open>
  Modelled from the spec: the state of the engine (sections 3 and 5; the server's state
  is missing): one pair of snapshots per tenant, the requests in progress, and the
  answers given.
\<close>

record engine =
  lexical_index :: "tenant_id \<Rightarrow> chunk list"
  semantic_index :: "tenant_id \<Rightarrow> chunk list"
  ingestions :: "ingestion list"
  readers :: "reader list"
  answers :: "answered list"

text \<open>
  Modelled from the spec: the engine at start (section 3; the server's startup is
  missing): every index snapshot is created empty.
\<close>

definition engine_init :: engine where
  "engine_init =
     \<lparr>lexical_index = (\<lambda>t. []), semantic_index = (\<lambda>t. []), ingestions = [], readers = [],
      answers = []\<rparr>"

text \<open>
  Modelled from the spec: the steps of the concurrency model of section 5 (the server's
  scheduling is missing).  Requests of any tenants interleave: an ingestion begins,
  commits or fails; a query begins, and finishes.
\<close>

datatype engine_event =
  BeginIngest credential string string
  | CommitIngest nat
  | AbortIngest nat
  | BeginQuery credential string
  | FinishQuery nat

text \<open>
  Modelled from the spec: taking a finished request out of those in progress (the
  server's scheduling is missing).
\<close>

definition remove_nth :: "nat \<Rightarrow> 'a list \<Rightarrow> 'a list" where
  "remove_nth i xs = take i xs @ drop (Suc i) xs"

text \<open>
  Modelled from the spec: one step of the engine (sections 4.1, 4.7 and 5; the server's
  handlers are missing).  A request with an unknown credential goes no further.  A commit
  replaces both snapshots of the ingesting tenant, and of no other.  A query takes the
  snapshots of its own tenant when it begins and answers from them when it finishes.
\<close>

fun engine_step :: "engine_params \<Rightarrow> engine \<Rightarrow> engine_event \<Rightarrow> engine" where
  "engine_step p e (BeginIngest c filename content) =
     (case resolve p c of
        Inl err \<Rightarrow> e
      | Inr t \<Rightarrow>
          (case prepare_ingest p t filename content of
             Inl err \<Rightarrow> e
           | Inr (doc, new) \<Rightarrow>
               e\<lparr>ingestions :=
                   ingestions e @ [\<lparr>ing_tenant = t, ing_doc = doc, ing_chunks = new\<rparr>]\<rparr>))"
| "engine_step p e (CommitIngest i) =
     (if i < length (ingestions e)
      then (let j = ingestions e ! i in
            e\<lparr>lexical_index := (lexical_index e)
                 (ing_tenant j := supersede (ing_doc j) (ing_chunks j) (lexical_index e (ing_tenant j))),
              semantic_index := (semantic_index e)
                 (ing_tenant j := supersede (ing_doc j) (ing_chunks j) (semantic_index e (ing_tenant j))),
              ingestions := remove_nth i (ingestions e)\<rparr>)
      else e)"
| "engine_step p e (AbortIngest i) = e\<lparr>ingestions := remove_nth i (ingestions e)\<rparr>"
| "engine_step p e (BeginQuery c q) =
     (case resolve p c of
        Inl err \<Rightarrow>
          e\<lparr>answers := answers e @ [\<lparr>by_credential = c, to_question = q, outcome = Inl err\<rparr>]\<rparr>
      | Inr t \<Rightarrow>
          e\<lparr>readers := readers e
               @ [\<lparr>rd_credential = c, rd_tenant = t, rd_question = q,
                   rd_semantic = semantic_index e t, rd_lexical = lexical_index e t\<rparr>]\<rparr>)"
| "engine_step p e (FinishQuery i) =
     (if i < length (readers e)
      then (let r = readers e ! i in
            e\<lparr>readers := remove_nth i (readers e),
              answers := answers e
                @ [\<lparr>by_credential = rd_credential r, to_question = rd_question r,
                    outcome = Inr (answer_query p (rd_tenant r) (rd_semantic r) (rd_lexical r)
                                     (rd_question r))\<rparr>]\<rparr>)
      else e)"

text \<open>
  Modelled from the spec: a run of the engine from its start (section 5; the server's
  scheduling is missing).
\<close>

definition engine_run :: "engine_params \<Rightarrow> engine_event list \<Rightarrow> engine" where
  "engine_run p events = foldl (engine_step p) engine_init events"

section \<open>Notions used in the statements\<close>

text \<open>A request with the header of a given name taken out.\<close>

definition without_header :: "jsstring \<Rightarrow> request \<Rightarrow> request" where
  "without_header h r = r\<lparr>headers := filter (\<lambda>kv. fst kv \<noteq> h) (headers r)\<rparr>"

text \<open>A request to the health endpoint.\<close>

definition is_health :: "jsstring option \<Rightarrow> request \<Rightarrow> bool" where
  "is_health env r = (url r = url (health_request env))"

text \<open>The element that \<open>source_item\<close> gives for a source which is an object.\<close>

definition the_item :: "jsval \<Rightarrow> vnode" where
  "the_item source = (case source_item source of Inr item \<Rightarrow> item | Inl e \<Rightarrow> Fragment [])"

text \<open>The four values shown for one source.\<close>

definition source_fields :: "jsval \<Rightarrow> jsval list" where
  "source_fields x =
     [get_prop x ''doc_id'', get_prop x ''chunk_id'', get_prop x ''score'', get_prop x ''excerpt'']"

text \<open>The elements of a value when it is an array, none otherwise.\<close>

definition array_items :: "jsval \<Rightarrow> jsval list" where
  "array_items v = (case v of JArr xs \<Rightarrow> xs | _ \<Rightarrow> [])"

text \<open>
  What a run keeps true of the health check: until its promise settles the stored status
  is \<open>null\<close>; afterwards it is what \<open>health_settle\<close> made of the outcome.
\<close>

definition health_inv :: "js_exn + jsval \<Rightarrow> app_world \<Rightarrow> bool" where
  "health_inv r w =
     (case health_promise w of
        Some r' \<Rightarrow> r' = r \<and> backendStatus (app w) = JNull
      | None \<Rightarrow> backendStatus (app w) = backendStatus (health_settle r App_init))"

text \<open>
  What a run keeps true of the queries: while one is loading it is the only one pending
  and both the result and the error are \<open>null\<close>; otherwise none is pending and one of the
  result and the error is \<open>null\<close>.
\<close>

definition query_inv :: "app_world \<Rightarrow> bool" where
  "query_inv w =
     (if loading (app w)
      then length (query_promises w) = 1 \<and> result (app w) = JNull \<and> error (app w) = None
      else query_promises w = [] \<and> (result (app w) = JNull \<or> error (app w) = None))"

text \<open>Every chunk of a list is owned by the tenant.\<close>

definition owned_by :: "tenant_id \<Rightarrow> chunk list \<Rightarrow> bool" where
  "owned_by t cs = (\<forall>c \<in> set cs. chunk_owner c = t)"

text \<open>
  What a run of the engine keeps true: the snapshots of a tenant, the chunks of an
  ingestion in progress for it, and the snapshots held by a query of it, are owned by that
  tenant; a query in progress holds the tenant of its credential; and a response names
  the tenant of its credential and cites only chunks of that tenant.
\<close>

definition engine_inv :: "engine_params \<Rightarrow> engine \<Rightarrow> bool" where
  "engine_inv p e =
     ((\<forall>t. owned_by t (lexical_index e t) \<and> owned_by t (semantic_index e t))
      \<and> (\<forall>j \<in> set (ingestions e). owned_by (ing_tenant j) (ing_chunks j))
      \<and> (\<forall>r \<in> set (readers e).
            registry p (rd_credential r) = Some (rd_tenant r)
            \<and> owned_by (rd_tenant r) (rd_semantic r) \<and> owned_by (rd_tenant r) (rd_lexical r))
      \<and> (\<forall>a \<in> set (answers e). \<forall>resp. outcome a = Inr resp \<longrightarrow>
            registry p (by_credential a) = Some (resp_tenant resp)
            \<and> (\<forall>s \<in> set (resp_sources resp). chunk_owner (src_chunk s) = resp_tenant resp)))"

text \<open>
  An example for the engine: two registered tenants, a window of 8 with an overlap of 2,
  a semantic provider that is unavailable, a lexical score of 1 for every chunk and a
  generation provider that fails; and a schedule in which the two tenants ingest a
  document each while a query of the first tenant is in progress.
\<close>

definition example_params :: engine_params where
  "example_params =
     \<lparr>registry = (\<lambda>c. if c = ''tenantA_key'' then Some ''tenantA''
                         else if c = ''tenantB_key'' then Some ''tenantB'' else None),
      window = 8, overlap = 2, max_size = 5242880,
      accepted_format = (\<lambda>filename content. True),
      doc_id_of = (\<lambda>filename. filename),
      semantic_score = (\<lambda>q. None),
      lexical_score = (\<lambda>snapshot q c. 1),
      T_sem = 1 / 2, T_min = 1 / 10, top_k = 3,
      generate = (\<lambda>q context. None),
      declines = (\<lambda>out. False),
      context_budget = 100, excerpt_length = 20\<rparr>"

definition example_events :: "engine_event list" where
  "example_events =
     [BeginIngest ''tenantA_key'' ''a.txt'' ''sous 5 jours'',
      BeginIngest ''tenantB_key'' ''b.txt'' ''autre texte'',
      BeginQuery ''tenantA_key'' ''combien de jours'',
      CommitIngest 1, CommitIngest 0,
      BeginQuery ''tenantA_key'' ''combien de jours'',
      FinishQuery 0, FinishQuery 0]"

section \<open>Properties of the string operations\<close>

lemma all_dropWhile_iff: "(\<forall>x \<in> set (dropWhile P s). P x) \<longleftrightarrow> (\<forall>x \<in> set s. P x)"
  by (induction s) auto

lemma trim_empty_iff: "trim s = [] \<longleftrightarrow> (\<forall>c \<in> set s. is_js_whitespace c)"
  by (simp add: trim_def dropWhile_eq_Nil_conv all_dropWhile_iff)

lemma invalid_key_message_truthy: "truthy_str invalid_key_message"
  by (simp add: truthy_str_def invalid_key_message_def js_def)

lemma server_error_truthy: "truthy_str (js ''Erreur serveur: '' @ m)"
  by (simp add: truthy_str_def js_def)

lemma server_error_not_invalid_key: "js ''Erreur serveur: '' @ m \<noteq> invalid_key_message"
  by (simp add: invalid_key_message_def js_def)

section \<open>Properties of QueryForm\<close>

text \<open>
  Claim C8.  A submission of the query form calls \<open>onSubmit\<close> exactly when the question
  has a code unit that is not whitespace, and then with the question and the API key of
  the form; a question made of whitespace only, or the empty question, makes no call, so
  no query request comes from it.
\<close>

theorem handleSubmit_nonblank_only:
  "handleSubmit onSubmit st =
     (if \<forall>c \<in> set (question st). is_js_whitespace c then None
      else Some (onSubmit (question st) (apiKey st)))"
  by (simp add: handleSubmit_def truthy_str_def trim_empty_iff)

theorem handleSubmit_nonblank_only_witness:
  "handleSubmit (query_request None) \<lparr>question = [0x20, 0x0A, 0xA0], apiKey = js ''tenantA_key''\<rparr>
     = None
   \<and> handleSubmit (query_request None) \<lparr>question = [], apiKey = js ''tenantA_key''\<rparr> = None
   \<and> handleSubmit (query_request None) \<lparr>question = js '' a '', apiKey = js ''tenantA_key''\<rparr>
       = Some (query_request None (js '' a '') (js ''tenantA_key''))"
  using handleSubmit_nonblank_only
          [of "query_request None" "\<lparr>question = [0x20, 0x0A, 0xA0], apiKey = js ''tenantA_key''\<rparr>"]
        handleSubmit_nonblank_only
          [of "query_request None" "\<lparr>question = [], apiKey = js ''tenantA_key''\<rparr>"]
        handleSubmit_nonblank_only
          [of "query_request None" "\<lparr>question = js '' a '', apiKey = js ''tenantA_key''\<rparr>"]
  by (simp add: is_js_whitespace_def js_def)

section \<open>Properties of the requests\<close>

lemma queryDocuments_sent:
  "snd (queryDocuments respond env q key sent) = sent @ [query_request env q key]"
  by (simp add: queryDocuments_def fetch_def split: fetch_outcome.splits)

lemma handleQuery_sent:
  "snd (handleQuery respond env q key s sent) = sent @ [query_request env q key]"
  using queryDocuments_sent[of respond env q key sent]
  by (auto simp: handleQuery_def split: prod.splits)

lemma query_url_not_health: "url (query_request env q key) \<noteq> url (health_request env)"
  by (simp add: query_request_def health_request_def js_def)

text \<open>
  Claim C2.  The request that \<open>queryDocuments\<close> sends has the API key as the value of its
  \<open>X-API-KEY\<close> header, and its body is the JSON object with the one field \<open>question\<close>;
  apart from that header the request does not depend on the key.  The request that
  \<open>handleUpload\<close> sends has the key in the same header and the file as the one part of its
  multipart body; apart from the header it does not depend on the key, and apart from the
  body it does not depend on the file.
\<close>

theorem credential_only_in_header:
  "snd (queryDocuments respond env q key sent) = sent @ [query_request env q key]
   \<and> map_of (headers (query_request env q key)) (js ''X-API-KEY'') = Some key
   \<and> body (query_request env q key) = JsonStringify (JObj [(js ''question'', JStr q)])
   \<and> without_header (js ''X-API-KEY'') (query_request env q key)
       = without_header (js ''X-API-KEY'') (query_request env q key')
   \<and> snd (handleUpload st) = map_option (upload_request (apiKey_upload st)) (file_upload st)
   \<and> map_of (headers (upload_request key f)) (js ''X-API-KEY'') = Some key
   \<and> body (upload_request key f) = FormData [(js ''file'', f)]
   \<and> without_header (js ''X-API-KEY'') (upload_request key f)
       = without_header (js ''X-API-KEY'') (upload_request key' f)
   \<and> (upload_request key f)\<lparr>body := NoBody\<rparr> = (upload_request key f')\<lparr>body := NoBody\<rparr>"
  by (simp add: query_request_def upload_request_def without_header_def js_def
      queryDocuments_def fetch_def handleUpload_def split: fetch_outcome.splits option.splits)

theorem credential_only_in_header_witness:
  "snd (queryDocuments (\<lambda>r. Responded 200 (Inr JNull)) None (js ''tenantA_key'') (js ''tenantA_key'') [])
     = [\<lparr>url = js ''http://localhost:8000/query'', http_method = js ''POST'',
         headers = [(js ''Content-Type'', js ''application/json''),
                    (js ''X-API-KEY'', js ''tenantA_key'')],
         body = JsonStringify (JObj [(js ''question'', JStr (js ''tenantA_key''))])\<rparr>]
   \<and> snd (handleUpload (UploadDocument_init\<lparr>file_upload := Some \<lparr>name = js ''a.txt'', size_bytes = 3\<rparr>\<rparr>))
     = Some \<lparr>url = js ''http://localhost:8000/upload'', http_method = js ''POST'',
              headers = [(js ''X-API-KEY'', js ''tenantA_key'')],
              body = FormData [(js ''file'', \<lparr>name = js ''a.txt'', size_bytes = 3\<rparr>)]\<rparr>"
  using credential_only_in_header
          [of "\<lambda>r. Responded 200 (Inr JNull)" None "js ''tenantA_key''" "js ''tenantA_key''" "[]"
              "js ''tenantA_key''"
              "UploadDocument_init\<lparr>file_upload := Some \<lparr>name = js ''a.txt'', size_bytes = 3\<rparr>\<rparr>"]
  by (simp add: query_request_def upload_request_def API_BASE_URL_def UploadDocument_init_def
      js_def)

section \<open>Properties of the query path\<close>

lemma QueryResults_Null: "QueryResults JNull = Inr None"
  by (simp add: QueryResults_def)

lemma not_ok_401: "\<not> ok 401"
  by (simp add: ok_def)

text \<open>
  Claim C3.  When the response to the query has status 401, the application ends with the
  invalid-key message as its error and no result: the error message is shown and nothing
  is rendered for the result, so no no-answer notice either.  When the response has
  another status outside 200 to 299, the error is the server-error message with that
  status, which differs from the invalid-key message, and again there is no result.  A
  result is rendered only if the response had a status from 200 to 299 and its body was
  read, and then there is no error.
\<close>

theorem query_status_surfacing:
  fixes respond env q key s sent
  defines "s' \<equiv> fst (handleQuery respond env q key s sent)"
  shows "(\<forall>json. respond (query_request env q key) = Responded 401 json \<longrightarrow>
            error s' = Some invalid_key_message \<and> result s' = JNull
            \<and> search_view s' = Inr (ErrorMessage (Some invalid_key_message), None)
            \<and> ErrorMessage (Some invalid_key_message) \<noteq> None)
       \<and> (\<forall>status json. respond (query_request env q key) = Responded status json
              \<and> \<not> ok status \<and> status \<noteq> 401 \<longrightarrow>
            error s' = Some (js ''Erreur serveur: '' @ decimal status)
            \<and> error s' \<noteq> Some invalid_key_message \<and> result s' = JNull
            \<and> (\<exists>shown. search_view s' = Inr (Some shown, None)))
       \<and> ((\<exists>t. QueryResults (result s') = Inr (Some t)) \<longrightarrow>
            (\<exists>status data. respond (query_request env q key) = Responded status (Inr data)
               \<and> ok status \<and> result s' = data \<and> error s' = None))"
  unfolding s'_def
  apply (intro conjI allI impI)
    apply (auto simp: handleQuery_def queryDocuments_def fetch_def handleQuery_settle_def
      handleQuery_begin_def not_ok_401 invalid_key_message_truthy server_error_truthy
      server_error_not_invalid_key search_view_def QueryResults_Null ErrorMessage_def
      split: fetch_outcome.splits sum.splits if_splits)
  done

theorem query_status_surfacing_witness:
  "error (fst (handleQuery (\<lambda>r. Responded 401 (Inr (JObj [(js ''no_answer'', JBool True)])))
                 None (js ''q'') (js ''wrong_key'') App_init [])) = Some invalid_key_message
   \<and> result (fst (handleQuery (\<lambda>r. Responded 401 (Inr (JObj [(js ''no_answer'', JBool True)])))
                 None (js ''q'') (js ''wrong_key'') App_init [])) = JNull
   \<and> error (fst (handleQuery (\<lambda>r. Responded 500 (Inr JNull))
                 None (js ''q'') (js ''tenantA_key'') App_init [])) = Some (js ''Erreur serveur: 500'')
   \<and> ok 200
   \<and> error (fst (handleQuery (\<lambda>r. Responded 200 (Inr (JObj [(js ''no_answer'', JBool True)])))
                 None (js ''q'') (js ''tenantA_key'') App_init [])) = None"
proof -
  have rendered:
    "\<exists>t. QueryResults
            (result (fst (handleQuery (\<lambda>r. Responded 200 (Inr (JObj [(js ''no_answer'', JBool True)])))
               None (js ''q'') (js ''tenantA_key'') App_init []))) = Inr (Some t)"
    by (simp add: handleQuery_def queryDocuments_def fetch_def handleQuery_settle_def
        handleQuery_begin_def ok_def QueryResults_def sources_view_def js_def)
  have d: "decimal 500 = js ''500''"
    by (simp add: decimal.simps js_def)
  have n: "\<not> ok 500"
    by (simp add: ok_def)
  show ?thesis
    using rendered n
      query_status_surfacing
        [of "\<lambda>r. Responded 401 (Inr (JObj [(js ''no_answer'', JBool True)]))"
            None "js ''q''" "js ''wrong_key''" App_init "[]"]
      query_status_surfacing
        [of "\<lambda>r. Responded 500 (Inr JNull)" None "js ''q''" "js ''tenantA_key''" App_init "[]"]
      query_status_surfacing
        [of "\<lambda>r. Responded 200 (Inr (JObj [(js ''no_answer'', JBool True)]))"
            None "js ''q''" "js ''tenantA_key''" App_init "[]"]
    by (auto simp: d js_def)
qed

section \<open>Properties of UploadDocument\<close>

text \<open>
  Claim C4.  For a file offered to \<open>handleFileChange\<close>, the file is the selected file and
  the error is cleared exactly when its name ends with \<open>.txt\<close> and its size is above 0 and
  at most \<open>5 * 1024 * 1024\<close>.  Otherwise no file is selected, the error is the message of
  the first check that failed, the upload button is not shown, and \<open>handleUpload\<close> sends
  no request.
\<close>

theorem handleFileChange_accepts_iff:
  fixes f rest st
  defines "st' \<equiv> handleFileChange (f # rest) st"
  defines "acceptable \<equiv>
     endsWith (name f) (js ''.txt'') \<and> 0 < size_bytes f \<and> size_bytes f \<le> 5 * 1024 * 1024"
  shows "((file_upload st' = Some f \<and> error_upload st' = None) \<longleftrightarrow> acceptable)
       \<and> (\<not> acceptable \<longrightarrow>
            file_upload st' = None \<and> \<not> upload_button_shown st' \<and> snd (handleUpload st') = None
            \<and> error_upload st' =
               Some (if \<not> endsWith (name f) (js ''.txt'')
                     then js ''Seuls les fichiers .txt sont accept'' @ [0xE9] @ js ''s''
                     else if size_bytes f = 0 then js ''Le fichier est vide''
                     else js ''Le fichier est trop volumineux (max 5MB)''))"
  unfolding st'_def acceptable_def
  by (auto simp: handleFileChange_def handleUpload_def upload_button_shown_def)

theorem handleFileChange_accepts_iff_witness:
  "file_upload (handleFileChange [\<lparr>name = js ''contrat.txt'', size_bytes = 5242880\<rparr>]
       UploadDocument_init) = Some \<lparr>name = js ''contrat.txt'', size_bytes = 5242880\<rparr>
   \<and> snd (handleUpload (handleFileChange [\<lparr>name = js ''contrat.txt'', size_bytes = 5242881\<rparr>]
       (UploadDocument_init\<lparr>file_upload := Some \<lparr>name = js ''old.txt'', size_bytes = 1\<rparr>\<rparr>))) = None
   \<and> error_upload (handleFileChange [\<lparr>name = js ''contrat.txt'', size_bytes = 0\<rparr>]
       UploadDocument_init) = Some (js ''Le fichier est vide'')
   \<and> file_upload (handleFileChange [\<lparr>name = js ''contrat.pdf'', size_bytes = 10\<rparr>]
       UploadDocument_init) = None"
proof -
  have a: "endsWith (js ''contrat.txt'') (js ''.txt'')"
    by (simp add: endsWith_def js_def)
  have b: "\<not> endsWith (js ''contrat.pdf'') (js ''.txt'')"
    by (simp add: endsWith_def js_def)
  show ?thesis
    using a b
      handleFileChange_accepts_iff
        [of "\<lparr>name = js ''contrat.txt'', size_bytes = 5242880\<rparr>" "[]" UploadDocument_init]
      handleFileChange_accepts_iff
        [of "\<lparr>name = js ''contrat.txt'', size_bytes = 5242881\<rparr>" "[]"
            "UploadDocument_init\<lparr>file_upload := Some \<lparr>name = js ''old.txt'', size_bytes = 1\<rparr>\<rparr>"]
      handleFileChange_accepts_iff
        [of "\<lparr>name = js ''contrat.txt'', size_bytes = 0\<rparr>" "[]" UploadDocument_init]
      handleFileChange_accepts_iff
        [of "\<lparr>name = js ''contrat.pdf'', size_bytes = 10\<rparr>" "[]" UploadDocument_init]
    by simp
qed

text \<open>
  Claim C9.  For every file, \<open>handleDrop\<close> on a drop whose first file it is gives the state
  that \<open>handleFileChange\<close> gives on a selection whose first file it is; with no file,
  both leave the state as it was.
\<close>

theorem handleDrop_same_as_picker:
  "handleDrop (f # dropped_rest) st = handleFileChange (f # picked_rest) st
   \<and> handleDrop [] st = handleFileChange [] st"
  by (simp add: handleDrop_def handleFileChange_def)

theorem handleDrop_same_as_picker_witness:
  "handleDrop [\<lparr>name = js ''a.pdf'', size_bytes = 7\<rparr>, \<lparr>name = js ''b.txt'', size_bytes = 7\<rparr>]
       UploadDocument_init
     = handleFileChange [\<lparr>name = js ''a.pdf'', size_bytes = 7\<rparr>] UploadDocument_init"
  using handleDrop_same_as_picker
          [of "\<lparr>name = js ''a.pdf'', size_bytes = 7\<rparr>" "[\<lparr>name = js ''b.txt'', size_bytes = 7\<rparr>]"
              UploadDocument_init "[]"]
  by simp

section \<open>Properties of QueryResults\<close>

lemma source_item_ok: "\<not> nullish x \<Longrightarrow> source_item x = Inr (the_item x)"
  by (simp add: the_item_def source_item_def)

lemma map_sources_ok:
  "\<forall>x \<in> set xs. \<not> nullish x \<Longrightarrow> map_sources xs = Inr (map the_item xs)"
  by (induction xs) (simp_all add: source_item_ok)

lemma the_item_exprs: "\<not> nullish x \<Longrightarrow> exprs (the_item x) = source_fields x"
  by (simp add: the_item_def source_item_def source_fields_def)

lemma the_item_self:
  "\<not> nullish x \<Longrightarrow> elems_with_class ''source-item'' (the_item x) = [the_item x]"
  by (simp add: the_item_def source_item_def)

lemma the_item_other:
  "\<not> nullish x \<Longrightarrow>
   c \<in> {''answer-box'', ''no-answer-message'', ''no-sources'', ''tenant-badge'',
        ''error-message''} \<Longrightarrow>
   elems_with_class c (the_item x) = []"
  by (auto simp: the_item_def source_item_def)

lemma items_self:
  "\<forall>x \<in> set xs. \<not> nullish x \<Longrightarrow>
   concat (map (elems_with_class ''source-item'') (map the_item xs)) = map the_item xs"
  by (induction xs) (simp_all add: the_item_self)

lemma items_other:
  "\<forall>x \<in> set xs. \<not> nullish x \<Longrightarrow>
   c \<in> {''answer-box'', ''no-answer-message'', ''no-sources'', ''tenant-badge'',
        ''error-message''} \<Longrightarrow>
   concat (map (elems_with_class c) (map the_item xs)) = []"
  by (induction xs) (simp_all add: the_item_other del: insert_iff)

lemma items_exprs:
  "\<forall>x \<in> set xs. \<not> nullish x \<Longrightarrow> map exprs (map the_item xs) = map source_fields xs"
  by (induction xs) (simp_all add: the_item_exprs)

text \<open>
  Sources that are absent, falsy, or an array without \<open>null\<close> entries render: to the
  \<open>no-sources\<close> paragraph, or to the list of items.
\<close>

lemma sources_view_cases:
  assumes "truthy sources \<longrightarrow> (\<exists>xs. sources = JArr xs \<and> (\<forall>x \<in> set xs. \<not> nullish x))"
  shows "sources_view sources =
     Inr (if \<not> truthy sources \<or> sources = JArr []
          then Elem ''p'' ''no-sources'' [Text (js ''Aucune source trouv'' @ [0xE9] @ js ''e'')]
          else Elem ''div'' ''sources-list'' (map the_item (array_items sources)))"
  using assms
  by (cases sources) (auto simp: sources_view_def map_sources_ok array_items_def)

lemma sources_body_other:
  assumes "truthy sources \<longrightarrow> (\<exists>xs. sources = JArr xs \<and> (\<forall>x \<in> set xs. \<not> nullish x))"
    and "sources_view sources = Inr b"
    and "c \<in> {''answer-box'', ''no-answer-message'', ''tenant-badge'', ''error-message''}"
  shows "elems_with_class c b = []"
proof -
  have "c \<in> {''answer-box'', ''no-answer-message'', ''no-sources'', ''tenant-badge'',
        ''error-message''}"
    using assms(3) by auto
  then have "\<And>xs. \<forall>x \<in> set xs. \<not> nullish x \<Longrightarrow>
      concat (map (elems_with_class c) (map the_item xs)) = []"
    by (rule items_other[rotated])
  then show ?thesis
    using assms sources_view_cases[OF assms(1)]
    by (auto split: if_splits simp: array_items_def)
qed

lemma sources_body_exprs:
  assumes "truthy sources \<longrightarrow> (\<exists>xs. sources = JArr xs \<and> (\<forall>x \<in> set xs. \<not> nullish x))"
    and "sources_view sources = Inr b"
  shows "exprs b = concat (map source_fields (array_items sources))"
  using assms sources_view_cases[OF assms(1)] items_exprs
  by (cases sources)
    (auto split: if_splits simp: array_items_def map_map[symmetric] simp del: map_map)

lemma sources_body_items:
  assumes "truthy sources \<longrightarrow> (\<exists>xs. sources = JArr xs \<and> (\<forall>x \<in> set xs. \<not> nullish x))"
    and "sources_view sources = Inr b"
  shows "map exprs (elems_with_class ''source-item'' b) = map source_fields (array_items sources)"
  using assms sources_view_cases[OF assms(1)] items_exprs items_self
  by (cases sources)
    (auto split: if_splits simp: array_items_def map_map[symmetric] simp del: map_map)

lemma sources_body_no_sources:
  assumes "truthy sources \<longrightarrow> (\<exists>xs. sources = JArr xs \<and> (\<forall>x \<in> set xs. \<not> nullish x))"
    and "sources_view sources = Inr b"
  shows "map exprs (elems_with_class ''no-sources'' b) =
           (if \<not> truthy sources \<or> sources = JArr [] then [ [] ] else [])"
proof -
  have "\<And>xs. \<forall>x \<in> set xs. \<not> nullish x \<Longrightarrow>
          concat (map (elems_with_class ''no-sources'') (map the_item xs)) = []"
    by (rule items_other) simp_all
  then show ?thesis
    using assms sources_view_cases[OF assms(1)]
    by (auto split: if_splits simp: array_items_def)
qed

text \<open>
  Claim C5.  Take a result that is truthy and whose \<open>sources\<close> are absent, falsy, or an
  array without \<open>null\<close> entries.  Then \<open>QueryResults\<close> renders a tree; the tree has the
  answer box, holding the answer, exactly when \<open>no_answer\<close> is falsy, and has the no-answer
  notice, which holds no value at all, exactly when \<open>no_answer\<close> is truthy; in neither
  case does it have an error message.  The values shown in the whole tree are the tenant,
  then the answer unless \<open>no_answer\<close>, then the fields of the sources.
\<close>

theorem QueryResults_answer_or_notice:
  assumes "truthy r"
    and "truthy (get_prop r ''sources'') \<longrightarrow>
           (\<exists>xs. get_prop r ''sources'' = JArr xs \<and> (\<forall>x \<in> set xs. \<not> nullish x))"
  shows "\<exists>t. QueryResults r = Inr (Some t)
           \<and> map exprs (elems_with_class ''answer-box'' t) =
               (if truthy (get_prop r ''no_answer'') then [] else [ [get_prop r ''answer''] ])
           \<and> map exprs (elems_with_class ''no-answer-message'' t) =
               (if truthy (get_prop r ''no_answer'') then [ [] ] else [])
           \<and> elems_with_class ''error-message'' t = []
           \<and> exprs t =
               get_prop r ''tenant_id''
               # (if truthy (get_prop r ''no_answer'') then [] else [get_prop r ''answer''])
               @ concat (map source_fields (array_items (get_prop r ''sources'')))"
proof -
  obtain b where b: "sources_view (get_prop r ''sources'') = Inr b"
    using sources_view_cases[OF assms(2)] by blast
  have o1: "elems_with_class ''answer-box'' b = []"
    and o2: "elems_with_class ''no-answer-message'' b = []"
    and o3: "elems_with_class ''error-message'' b = []"
    using sources_body_other[OF assms(2) b] by simp_all
  note e = sources_body_exprs[OF assms(2) b]
  show ?thesis
    using assms(1) b o1 o2 o3 e
    by (simp add: QueryResults_def answer_view_def)
qed

theorem QueryResults_answer_or_notice_witness:
  "(\<exists>t. QueryResults (JObj [(js ''tenant_id'', JStr (js ''tenantB'')), (js ''answer'', JStr []),
            (js ''sources'', JArr []), (js ''no_answer'', JBool True)]) = Inr (Some t)
      \<and> map exprs (elems_with_class ''answer-box'' t) = []
      \<and> map exprs (elems_with_class ''no-answer-message'' t) = [ [] ])
   \<and> (\<exists>t. QueryResults (JObj [(js ''tenant_id'', JStr (js ''tenantA'')),
            (js ''answer'', JStr (js ''5 jours'')),
            (js ''sources'', JArr [JObj [(js ''doc_id'', JStr (js ''docA1.txt''))] ]),
            (js ''no_answer'', JBool False)]) = Inr (Some t)
      \<and> map exprs (elems_with_class ''answer-box'' t) = [ [JStr (js ''5 jours'')] ]
      \<and> map exprs (elems_with_class ''no-answer-message'' t) = [])"
  using QueryResults_answer_or_notice
          [of "JObj [(js ''tenant_id'', JStr (js ''tenantB'')), (js ''answer'', JStr []),
            (js ''sources'', JArr []), (js ''no_answer'', JBool True)]"]
        QueryResults_answer_or_notice
          [of "JObj [(js ''tenant_id'', JStr (js ''tenantA'')),
            (js ''answer'', JStr (js ''5 jours'')),
            (js ''sources'', JArr [JObj [(js ''doc_id'', JStr (js ''docA1.txt''))] ]),
            (js ''no_answer'', JBool False)]"]
  by (auto simp: js_def nullish_def)

text \<open>
  Claim C6.  Under the same conditions the rendered tree has one tenant badge, which shows
  \<open>tenant_id\<close>; it has one \<open>source-item\<close> per entry of \<open>sources\<close>, in order, each showing
  the entry's \<open>doc_id\<close>, \<open>chunk_id\<close>, \<open>score\<close> and \<open>excerpt\<close>; and it has the \<open>no-sources\<close>
  paragraph exactly when \<open>sources\<close> is falsy or the empty array.
\<close>

theorem QueryResults_sources_traceable:
  assumes "truthy r"
    and "truthy (get_prop r ''sources'') \<longrightarrow>
           (\<exists>xs. get_prop r ''sources'' = JArr xs \<and> (\<forall>x \<in> set xs. \<not> nullish x))"
  shows "\<exists>t. QueryResults r = Inr (Some t)
           \<and> map exprs (elems_with_class ''tenant-badge'' t) = [ [get_prop r ''tenant_id''] ]
           \<and> map exprs (elems_with_class ''source-item'' t) =
               map source_fields (array_items (get_prop r ''sources''))
           \<and> map exprs (elems_with_class ''no-sources'' t) =
               (if \<not> truthy (get_prop r ''sources'') \<or> get_prop r ''sources'' = JArr []
                then [ [] ] else [])"
proof -
  obtain b where b: "sources_view (get_prop r ''sources'') = Inr b"
    using sources_view_cases[OF assms(2)] by blast
  have o: "elems_with_class ''tenant-badge'' b = []"
    using sources_body_other[OF assms(2) b] by simp
  note i = sources_body_items[OF assms(2) b]
  note n = sources_body_no_sources[OF assms(2) b]
  show ?thesis
    using assms(1) b o i n
    by (simp add: QueryResults_def answer_view_def)
qed

theorem QueryResults_sources_traceable_witness:
  "(\<exists>t. QueryResults (JObj [(js ''tenant_id'', JStr (js ''tenantA'')),
            (js ''answer'', JStr (js ''5 jours'')),
            (js ''sources'',
               JArr [JObj [(js ''doc_id'', JStr (js ''docA1.txt'')), (js ''chunk_id'', JNum 0),
                           (js ''score'', JNum (3 / 4)), (js ''excerpt'', JStr (js ''sous 5 jours''))] ]),
            (js ''no_answer'', JBool False)]) = Inr (Some t)
      \<and> map exprs (elems_with_class ''tenant-badge'' t) = [ [JStr (js ''tenantA'')] ]
      \<and> map exprs (elems_with_class ''source-item'' t) =
           [ [JStr (js ''docA1.txt''), JNum 0, JNum (3 / 4), JStr (js ''sous 5 jours'')] ]
      \<and> map exprs (elems_with_class ''no-sources'' t) = [])
   \<and> (\<exists>t. QueryResults (JObj [(js ''tenant_id'', JStr (js ''tenantB'')), (js ''no_answer'', JBool True)])
             = Inr (Some t)
      \<and> map exprs (elems_with_class ''source-item'' t) = []
      \<and> map exprs (elems_with_class ''no-sources'' t) = [ [] ])"
  using QueryResults_sources_traceable
          [of "JObj [(js ''tenant_id'', JStr (js ''tenantA'')),
            (js ''answer'', JStr (js ''5 jours'')),
            (js ''sources'',
               JArr [JObj [(js ''doc_id'', JStr (js ''docA1.txt'')), (js ''chunk_id'', JNum 0),
                           (js ''score'', JNum (3 / 4)), (js ''excerpt'', JStr (js ''sous 5 jours''))] ]),
            (js ''no_answer'', JBool False)]"]
        QueryResults_sources_traceable
          [of "JObj [(js ''tenant_id'', JStr (js ''tenantB'')), (js ''no_answer'', JBool True)]"]
  by (auto simp: js_def nullish_def source_fields_def array_items_def)

section \<open>Properties of the application\<close>

lemma handleQuery_exclusive:
  "result (fst (handleQuery respond env q key s sent)) = JNull
   \<or> error (fst (handleQuery respond env q key s sent)) = None"
  by (simp add: handleQuery_def handleQuery_settle_def handleQuery_begin_def
      split: prod.splits sum.splits)

lemma App_mount_requests: "requests (App_mount respond env) = [health_request env]"
  by (simp add: App_mount_def checkHealth_def fetch_def
      split: fetch_outcome.splits sum.splits)

lemma App_mount_app: "app (App_mount respond env) = App_init"
  by (simp add: App_mount_def split: prod.splits)

lemma App_mount_query_promises: "query_promises (App_mount respond env) = []"
  by (simp add: App_mount_def split: prod.splits)

lemma App_mount_health_promise:
  "health_promise (App_mount respond env) = Some (fst (checkHealth respond env []))"
  by (simp add: App_mount_def split: prod.splits)

lemma app_step_requests:
  "filter (is_health env) (requests (app_step respond env w ev)) = filter (is_health env) (requests w)"
proof (cases ev)
  case (SubmitForm form)
  have "filter (is_health env) sent' = filter (is_health env) (requests w)"
    if "queryDocuments respond env q key (requests w) = (r, sent')" for q key r sent'
  proof -
    have "sent' = requests w @ [query_request env q key]"
      using queryDocuments_sent[of respond env q key "requests w"] that by simp
    then show ?thesis
      by (simp add: is_health_def query_url_not_health)
  qed
  then show ?thesis
    by (auto simp: SubmitForm split: option.splits prod.splits)
qed (simp_all split: list.splits option.splits)

lemma app_step_health_inv: "health_inv r w \<Longrightarrow> health_inv r (app_step respond env w ev)"
  by (cases ev)
    (auto simp: health_inv_def handleQuery_begin_def handleQuery_settle_def dismiss_error_def
      health_settle_def
      split: option.splits prod.splits list.splits sum.splits)

lemma foldl_health_inv:
  "health_inv r w \<Longrightarrow> health_inv r (foldl (app_step respond env) w events)"
  by (induction events arbitrary: w) (simp_all add: app_step_health_inv)

lemma foldl_requests:
  "filter (is_health env) (requests (foldl (app_step respond env) w events))
     = filter (is_health env) (requests w)"
  by (induction events arbitrary: w) (simp_all add: app_step_requests)

lemma app_step_query_inv: "query_inv w \<Longrightarrow> query_inv (app_step respond env w ev)"
  by (cases ev)
    (auto simp: query_inv_def handleQuery_begin_def handleQuery_settle_def dismiss_error_def
      health_settle_def submit_disabled_def
      split: option.splits prod.splits list.splits sum.splits if_splits)

lemma foldl_query_inv:
  "query_inv w \<Longrightarrow> query_inv (foldl (app_step respond env) w events)"
  by (induction events arbitrary: w) (simp_all add: app_step_query_inv)

lemma App_mount_query_inv: "query_inv (App_mount respond env)"
  by (simp add: query_inv_def App_mount_app App_mount_query_promises App_init_def)

lemma App_mount_health_inv: "health_inv (fst (checkHealth respond env [])) (App_mount respond env)"
  by (simp add: health_inv_def App_mount_app App_mount_health_promise App_init_def)

lemma status_ok_shown:
  "elems_with_class ''status-ok'' (backend_status v) \<noteq> [] \<longleftrightarrow>
     opt_prop v ''status'' = JStr (js ''ok'')"
  by (simp add: backend_status_def)

lemma status_error_shown:
  "elems_with_class ''status-error'' (backend_status v) \<noteq> [] \<longleftrightarrow>
     opt_prop v ''status'' = JStr (js ''error'')"
  by (auto simp add: backend_status_def js_def)

lemma error_status_prop:
  "opt_prop (JObj [(js ''status'', JStr (js ''error''))]) ''status'' = JStr (js ''error'')"
  by (simp add: opt_prop_def nullish_def)

lemma checkHealth_outcome:
  "fst (checkHealth respond env sent) =
     (case respond (health_request env) of Rejected e \<Rightarrow> Inl e | Responded status json \<Rightarrow> json)"
  by (simp add: checkHealth_def fetch_def split: fetch_outcome.splits)

text \<open>
  Claim C7.  Mounting the application sends one request, the health request, and no
  event afterwards sends another to that address.  Once the health check has settled, in
  every later state the badge shows the operational state exactly when the health request
  was answered with a value whose \<open>status\<close> is \<open>'ok'\<close>; it shows the unavailable state when
  the answer's \<open>status\<close> is \<open>'error'\<close>, and also when the request was rejected or its body
  could not be read, in which case the stored status is \<open>{status: 'error'}\<close>.
\<close>

theorem health_check_once_and_indicator:
  fixes respond env events
  defines "final \<equiv> app_run respond env events"
  defines "badge \<equiv> backend_status (backendStatus (app final))"
  shows "requests (App_mount respond env) = [health_request env]
       \<and> filter (\<lambda>r. url r = url (health_request env)) (requests final) = [health_request env]
       \<and> (health_promise final = None \<longrightarrow>
            (elems_with_class ''status-ok'' badge \<noteq> [] \<longleftrightarrow>
               (\<exists>status v. respond (health_request env) = Responded status (Inr v)
                  \<and> opt_prop v ''status'' = JStr (js ''ok'')))
          \<and> (\<forall>status v. respond (health_request env) = Responded status (Inr v)
                 \<and> opt_prop v ''status'' = JStr (js ''error'')
               \<longrightarrow> elems_with_class ''status-error'' badge \<noteq> [])
          \<and> (\<forall>status e. respond (health_request env) = Rejected e
                 \<or> respond (health_request env) = Responded status (Inl e)
               \<longrightarrow> backendStatus (app final) = JObj [(js ''status'', JStr (js ''error''))]
                 \<and> elems_with_class ''status-error'' badge \<noteq> []))"
proof -
  have sent: "filter (is_health env) (requests final) = [health_request env]"
    unfolding final_def app_run_def
    by (simp add: foldl_requests App_mount_requests is_health_def)
  have "health_inv (fst (checkHealth respond env [])) final"
    unfolding final_def app_run_def
    by (rule foldl_health_inv) (rule App_mount_health_inv)
  then have st: "health_promise final = None \<Longrightarrow> backendStatus (app final) =
       (case respond (health_request env) of
          Responded status (Inr v) \<Rightarrow> v
        | _ \<Rightarrow> JObj [(js ''status'', JStr (js ''error''))])"
    by (auto simp: health_inv_def checkHealth_outcome health_settle_def
        split: fetch_outcome.splits sum.splits)
  have ne: "JStr (js ''error'') \<noteq> JStr (js ''ok'')"
    by (simp add: js_def)
  show ?thesis
    unfolding badge_def
    apply (intro conjI allI impI)
    subgoal by (rule App_mount_requests)
    subgoal using sent by (simp add: is_health_def[abs_def])
    subgoal using ne
      by (auto simp: st status_ok_shown error_status_prop split: fetch_outcome.splits sum.splits)
    subgoal by (simp add: st status_error_shown)
    subgoal by (auto simp: st)
    subgoal by (auto simp: st status_error_shown error_status_prop)
    done
qed

theorem health_check_once_and_indicator_witness:
  "requests (app_run (\<lambda>r. Responded 200 (Inr (JObj [(js ''status'', JStr (js ''ok''))]))) None
          [SubmitForm \<lparr>question = js ''q'', apiKey = js ''tenantA_key''\<rparr>, HealthSettles,
           QuerySettles])
     = [health_request None, query_request None (js ''q'') (js ''tenantA_key'')]
   \<and> elems_with_class ''status-ok''
        (backend_status (backendStatus (app (app_run
           (\<lambda>r. Responded 200 (Inr (JObj [(js ''status'', JStr (js ''ok''))]))) None
           [SubmitForm \<lparr>question = js ''q'', apiKey = js ''tenantA_key''\<rparr>, HealthSettles,
            QuerySettles])))) \<noteq> []
   \<and> elems_with_class ''status-error''
        (backend_status (backendStatus (app (app_run
           (\<lambda>r. Responded 200 (Inr (JObj [(js ''status'', JStr (js ''error''))]))) None
           [HealthSettles])))) \<noteq> []
   \<and> elems_with_class ''status-error''
        (backend_status (backendStatus (app (app_run
           (\<lambda>r. Rejected (Exn (js ''Failed to fetch''))) None [HealthSettles])))) \<noteq> []"
proof -
  have sent:
    "requests (app_run (\<lambda>r. Responded 200 (Inr (JObj [(js ''status'', JStr (js ''ok''))]))) None
          [SubmitForm \<lparr>question = js ''q'', apiKey = js ''tenantA_key''\<rparr>, HealthSettles,
           QuerySettles])
     = [health_request None, query_request None (js ''q'') (js ''tenantA_key'')]"
    by (simp add: app_run_def App_mount_def checkHealth_def queryDocuments_def fetch_def
        submit_disabled_def handleSubmit_def truthy_str_def trim_def is_js_whitespace_def
        js_def App_init_def ok_def)
  have settled1:
    "health_promise (app_run (\<lambda>r. Responded 200 (Inr (JObj [(js ''status'', JStr (js ''ok''))])))
        None [SubmitForm \<lparr>question = js ''q'', apiKey = js ''tenantA_key''\<rparr>, HealthSettles,
              QuerySettles]) = None"
    by (simp add: app_run_def App_mount_def checkHealth_def queryDocuments_def fetch_def
        submit_disabled_def handleSubmit_def truthy_str_def trim_def is_js_whitespace_def
        js_def App_init_def ok_def)
  have settled2:
    "health_promise (app_run (\<lambda>r. Responded 200 (Inr (JObj [(js ''status'', JStr (js ''error''))])))
        None [HealthSettles]) = None"
    by (simp add: app_run_def App_mount_def checkHealth_def fetch_def)
  have settled3:
    "health_promise (app_run (\<lambda>r. Rejected (Exn (js ''Failed to fetch''))) None [HealthSettles])
       = None"
    by (simp add: app_run_def App_mount_def checkHealth_def fetch_def)
  have p: "opt_prop (JObj [(js ''status'', JStr (js ''ok''))]) ''status'' = JStr (js ''ok'')"
    by (simp add: opt_prop_def nullish_def)
  note a = health_check_once_and_indicator
        [of "\<lambda>r. Responded 200 (Inr (JObj [(js ''status'', JStr (js ''ok''))]))" None
            "[SubmitForm \<lparr>question = js ''q'', apiKey = js ''tenantA_key''\<rparr>, HealthSettles,
              QuerySettles]"]
  note b = health_check_once_and_indicator
        [of "\<lambda>r. Responded 200 (Inr (JObj [(js ''status'', JStr (js ''error''))]))" None
            "[HealthSettles]"]
  note c = health_check_once_and_indicator
        [of "\<lambda>r. Rejected (Exn (js ''Failed to fetch''))" None "[HealthSettles]"]
  have 1: "elems_with_class ''status-ok''
        (backend_status (backendStatus (app (app_run
           (\<lambda>r. Responded 200 (Inr (JObj [(js ''status'', JStr (js ''ok''))]))) None
           [SubmitForm \<lparr>question = js ''q'', apiKey = js ''tenantA_key''\<rparr>, HealthSettles,
            QuerySettles])))) \<noteq> []"
    using a settled1 p by blast
  have 2: "elems_with_class ''status-error''
        (backend_status (backendStatus (app (app_run
           (\<lambda>r. Responded 200 (Inr (JObj [(js ''status'', JStr (js ''error''))]))) None
           [HealthSettles])))) \<noteq> []"
    using b settled2 error_status_prop by blast
  have 3: "elems_with_class ''status-error''
        (backend_status (backendStatus (app (app_run
           (\<lambda>r. Rejected (Exn (js ''Failed to fetch''))) None [HealthSettles])))) \<noteq> []"
    using c settled3 by blast
  show ?thesis
    using sent 1 2 3 by blast
qed

text \<open>
  Claim C10.  \<open>handleQuery\<close> first sets both the result and the error to \<open>null\<close>.  When it
  has finished, one of the two is \<open>null\<close>: if the request gave data, the result is the
  data and the error is \<open>null\<close>; if it failed, the result is \<open>null\<close> and the error is set.
  In every state that the running application reaches, one of the two is \<open>null\<close>, and so
  the error message and the results are never rendered together.
\<close>

theorem result_and_error_exclusive:
  fixes respond env q key s sent events
  defines "s' \<equiv> fst (handleQuery respond env q key s sent)"
  defines "final \<equiv> app (app_run respond env events)"
  shows "result (handleQuery_begin s) = JNull \<and> error (handleQuery_begin s) = None
       \<and> (result s' = JNull \<or> error s' = None)
       \<and> (case fst (queryDocuments respond env q key sent) of
             Inr data \<Rightarrow> result s' = data \<and> error s' = None
           | Inl e \<Rightarrow> result s' = JNull \<and> error s' \<noteq> None)
       \<and> (result final = JNull \<or> error final = None)
       \<and> (ErrorMessage (error final) = None \<or> QueryResults (result final) = Inr None)"
proof -
  have "query_inv (app_run respond env events)"
    unfolding app_run_def by (rule foldl_query_inv) (rule App_mount_query_inv)
  then have inv: "result final = JNull \<or> error final = None"
    unfolding final_def by (auto simp: query_inv_def split: if_splits)
  have view: "ErrorMessage (error final) = None \<or> QueryResults (result final) = Inr None"
    using inv by (auto simp: ErrorMessage_def QueryResults_def)
  show ?thesis
    unfolding s'_def
    apply (intro conjI)
    subgoal by (simp add: handleQuery_begin_def)
    subgoal by (simp add: handleQuery_begin_def)
    subgoal by (rule handleQuery_exclusive)
    subgoal by (simp add: handleQuery_def handleQuery_settle_def handleQuery_begin_def
          split: prod.splits sum.splits)
    subgoal by (rule inv)
    subgoal by (rule view)
    done
qed

theorem result_and_error_exclusive_witness:
  "result (fst (handleQuery (\<lambda>r. Responded 500 (Inr JNull)) None (js ''q'') (js ''tenantA_key'')
       (App_init\<lparr>result := JObj [(js ''answer'', JStr (js ''old''))]\<rparr>) [])) = JNull
   \<and> error (fst (handleQuery (\<lambda>r. Responded 200 (Inr (JObj [(js ''answer'', JStr (js ''new''))])))
       None (js ''q'') (js ''tenantA_key'') (App_init\<lparr>error := Some (js ''old'')\<rparr>) [])) = None"
proof -
  have f: "fst (queryDocuments (\<lambda>r. Responded 500 (Inr JNull)) None (js ''q'') (js ''tenantA_key'') [])
             = Inl (Exn (js ''Erreur serveur: '' @ decimal 500))"
    by (simp add: queryDocuments_def fetch_def ok_def)
  have g: "fst (queryDocuments (\<lambda>r. Responded 200 (Inr (JObj [(js ''answer'', JStr (js ''new''))])))
              None (js ''q'') (js ''tenantA_key'') [])
             = Inr (JObj [(js ''answer'', JStr (js ''new''))])"
    by (simp add: queryDocuments_def fetch_def ok_def)
  note a = result_and_error_exclusive
          [of "App_init\<lparr>result := JObj [(js ''answer'', JStr (js ''old''))]\<rparr>"
              "\<lambda>r. Responded 500 (Inr JNull)" None "js ''q''" "js ''tenantA_key''" "[]",
           unfolded f]
  note b = result_and_error_exclusive
          [of "App_init\<lparr>error := Some (js ''old'')\<rparr>"
              "\<lambda>r. Responded 200 (Inr (JObj [(js ''answer'', JStr (js ''new''))]))"
              None "js ''q''" "js ''tenantA_key''" "[]", unfolded g]
  show ?thesis
    using a b by simp
qed

section \<open>Properties of the engine\<close>

lemma set_rank_insert: "set (rank_insert a xs) = insert a (set xs)"
  by (induction xs) auto

lemma set_foldr_rank_insert: "set (foldr rank_insert xs []) = set xs"
  by (induction xs) (simp_all add: set_rank_insert)

lemma set_rank: "set (rank k xs) \<subseteq> set xs"
  using set_take_subset[of k "foldr rank_insert xs []"]
  by (simp add: rank_def set_foldr_rank_insert)

lemma lexical_query_owned:
  assumes "owned_by t snapshot" and "s \<in> set (lexical_query p snapshot q)"
  shows "chunk_owner (src_chunk s) = t"
proof -
  have "s \<in> set (map (\<lambda>c. \<lparr>src_chunk = c, src_score = lexical_score p snapshot q c\<rparr>) snapshot)"
    using assms(2) set_rank unfolding lexical_query_def by blast
  then show ?thesis
    using assms(1) by (auto simp: owned_by_def)
qed

lemma semantic_query_owned:
  assumes "owned_by t snapshot" and "semantic_query p snapshot q = Some ranked"
    and "s \<in> set ranked"
  shows "chunk_owner (src_chunk s) = t"
proof -
  obtain score where "semantic_score p q = Some score"
    and r: "ranked = rank (top_k p) (map (\<lambda>c. \<lparr>src_chunk = c, src_score = score c\<rparr>) snapshot)"
    using assms(2) by (auto simp: semantic_query_def split: option.splits)
  have "s \<in> set (map (\<lambda>c. \<lparr>src_chunk = c, src_score = score c\<rparr>) snapshot)"
    using assms(3) set_rank unfolding r by blast
  then show ?thesis
    using assms(1) by (auto simp: owned_by_def)
qed

lemma retrieve_owned:
  assumes "owned_by t sm" and "owned_by t lx" and "s \<in> set (fst (retrieve p sm lx q))"
  shows "chunk_owner (src_chunk s) = t"
proof -
  define chosen where "chosen =
     (case semantic_query p sm q of
        Some ranked \<Rightarrow>
          if \<exists>s \<in> set ranked. T_sem p < src_score s then (ranked, Semantic)
          else (lexical_query p lx q, Lexical)
      | None \<Rightarrow> (lexical_query p lx q, Lexical))"
  have c: "chunk_owner (src_chunk x) = t" if "x \<in> set (fst chosen)" for x
  proof (cases "semantic_query p sm q")
    case None
    then show ?thesis
      using that lexical_query_owned[OF assms(2), of x p q] by (simp add: chosen_def)
  next
    case (Some ranked)
    then show ?thesis
      using that lexical_query_owned[OF assms(2), of x p q]
        semantic_query_owned[OF assms(1) Some, of x]
      by (simp add: chosen_def split: if_splits)
  qed
  have "set (fst (retrieve p sm lx q)) \<subseteq> set (fst chosen)"
    by (auto simp: retrieve_def chosen_def[symmetric] Let_def split: list.splits)
  then show ?thesis
    using assms(3) c by blast
qed

lemma answer_query_owned:
  assumes "owned_by t sm" and "owned_by t lx"
  shows "resp_tenant (answer_query p t sm lx q) = t
       \<and> (\<forall>s \<in> set (resp_sources (answer_query p t sm lx q)). chunk_owner (src_chunk s) = t)"
proof -
  have "resp_sources (answer_query p t sm lx q) = fst (retrieve p sm lx q)"
    by (simp add: answer_query_def split: prod.splits)
  moreover have "resp_tenant (answer_query p t sm lx q) = t"
    by (simp add: answer_query_def split: prod.splits)
  ultimately show ?thesis
    using retrieve_owned[OF assms, of _ p q] by simp
qed

lemma make_chunks_owned: "owned_by t (make_chunks t doc spans)"
  by (auto simp: owned_by_def make_chunks_def)

lemma prepare_ingest_owned:
  "prepare_ingest p t filename content = Inr (doc, new) \<Longrightarrow> owned_by t new"
  by (auto simp: prepare_ingest_def make_chunks_owned split: if_splits sum.splits)

lemma supersede_owned: "owned_by t new \<Longrightarrow> owned_by t old \<Longrightarrow> owned_by t (supersede doc new old)"
  by (auto simp: owned_by_def supersede_def)

lemma set_remove_nth: "set (remove_nth i xs) \<subseteq> set xs"
  using set_take_subset[of i xs] set_drop_subset[of "Suc i" xs]
  by (auto simp: remove_nth_def)

lemma engine_init_inv: "engine_inv p engine_init"
  by (simp add: engine_inv_def engine_init_def owned_by_def)

lemma engine_step_inv:
  assumes "engine_inv p e"
  shows "engine_inv p (engine_step p e ev)"
proof (cases ev)
  case (BeginIngest c filename content)
  then show ?thesis
    using assms prepare_ingest_owned
    by (auto simp: engine_inv_def resolve_def split: option.splits sum.splits)
next
  case (CommitIngest i)
  show ?thesis
  proof (cases "i < length (ingestions e)")
    case True
    define j where "j = ingestions e ! i"
    have j: "owned_by (ing_tenant j) (ing_chunks j)"
      using assms True unfolding j_def engine_inv_def by simp
    have rest: "set (remove_nth i (ingestions e)) \<subseteq> set (ingestions e)"
      by (rule set_remove_nth)
    have idx: "\<forall>t. owned_by t (lexical_index e t) \<and> owned_by t (semantic_index e t)"
      using assms unfolding engine_inv_def by simp
    show ?thesis
      using assms True j rest idx supersede_owned
      by (auto simp: engine_inv_def CommitIngest Let_def j_def[symmetric])
  next
    case False
    then show ?thesis using assms by (simp add: CommitIngest)
  qed
next
  case (AbortIngest i)
  then show ?thesis
    using assms set_remove_nth[of i "ingestions e"]
    by (auto simp: engine_inv_def)
next
  case (BeginQuery c q)
  then show ?thesis
    using assms
    by (auto simp: engine_inv_def resolve_def split: option.splits)
next
  case (FinishQuery i)
  show ?thesis
  proof (cases "i < length (readers e)")
    case True
    define r where "r = readers e ! i"
    have r: "registry p (rd_credential r) = Some (rd_tenant r)"
      "owned_by (rd_tenant r) (rd_semantic r)" "owned_by (rd_tenant r) (rd_lexical r)"
      using assms True unfolding r_def engine_inv_def by simp_all
    note a = answer_query_owned[OF r(2) r(3), of p "rd_question r"]
    have rest: "set (remove_nth i (readers e)) \<subseteq> set (readers e)"
      by (rule set_remove_nth)
    show ?thesis
      using assms True r(1) a rest
      by (auto simp: engine_inv_def FinishQuery Let_def r_def[symmetric])
  next
    case False
    then show ?thesis using assms by (simp add: FinishQuery)
  qed
qed

lemma foldl_engine_inv: "engine_inv p e \<Longrightarrow> engine_inv p (foldl (engine_step p) e events)"
  by (induction events arbitrary: e) (simp_all add: engine_step_inv)

lemma engine_run_inv: "engine_inv p (engine_run p events)"
  unfolding engine_run_def by (rule foldl_engine_inv) (rule engine_init_inv)

text \<open>The example, evaluated step by step.\<close>

lemma chunks_A: "chunk_from 8 2 0 ''sous 5 jours'' = [(0, ''sous 5 j''), (6, '' jours'')]"
  by (simp add: chunk_from.simps)

lemma chunks_B: "chunk_from 8 2 0 ''autre texte'' = [(0, ''autre te''), (6, ''texte'')]"
  by (simp add: chunk_from.simps)

lemma upt_2: "[0 ..< 2] = [0, Suc 0]"
  by (simp add: upt_rec)

lemma prepare_A:
  "prepare_ingest example_params ''tenantA'' ''a.txt'' ''sous 5 jours'' =
     Inr (''a.txt'',
       [\<lparr>chunk_owner = ''tenantA'', chunk_doc = ''a.txt'', chunk_seq = 0, chunk_offset = 0,
          chunk_text = ''sous 5 j''\<rparr>,
        \<lparr>chunk_owner = ''tenantA'', chunk_doc = ''a.txt'', chunk_seq = 1, chunk_offset = 6,
          chunk_text = '' jours''\<rparr>])"
  by (simp add: prepare_ingest_def example_params_def chunk_text_of_def chunks_A make_chunks_def
      upt_2)

lemma prepare_B:
  "prepare_ingest example_params ''tenantB'' ''b.txt'' ''autre texte'' =
     Inr (''b.txt'',
       [\<lparr>chunk_owner = ''tenantB'', chunk_doc = ''b.txt'', chunk_seq = 0, chunk_offset = 0,
          chunk_text = ''autre te''\<rparr>,
        \<lparr>chunk_owner = ''tenantB'', chunk_doc = ''b.txt'', chunk_seq = 1, chunk_offset = 6,
          chunk_text = ''texte''\<rparr>])"
  by (simp add: prepare_ingest_def example_params_def chunk_text_of_def chunks_B make_chunks_def
      upt_2)

lemma resolve_A: "resolve example_params ''tenantA_key'' = Inr ''tenantA''"
  by (simp add: resolve_def example_params_def)

lemma resolve_B: "resolve example_params ''tenantB_key'' = Inr ''tenantB''"
  by (simp add: resolve_def example_params_def)

lemma answer_empty:
  "answer_query example_params ''tenantA'' [] [] ''combien de jours'' =
     \<lparr>resp_tenant = ''tenantA'', resp_answer = [], resp_sources = [], resp_no_answer = True, resp_degraded = False\<rparr>"
  by (simp add: answer_query_def retrieve_def semantic_query_def lexical_query_def rank_def
      synthesize_def example_params_def)

lemma answer_A:
  "answer_query example_params ''tenantA''
     [\<lparr>chunk_owner = ''tenantA'', chunk_doc = ''a.txt'', chunk_seq = 0, chunk_offset = 0,
        chunk_text = ''sous 5 j''\<rparr>,
      \<lparr>chunk_owner = ''tenantA'', chunk_doc = ''a.txt'', chunk_seq = Suc 0, chunk_offset = 6,
        chunk_text = '' jours''\<rparr>]
     [\<lparr>chunk_owner = ''tenantA'', chunk_doc = ''a.txt'', chunk_seq = 0, chunk_offset = 0,
        chunk_text = ''sous 5 j''\<rparr>,
      \<lparr>chunk_owner = ''tenantA'', chunk_doc = ''a.txt'', chunk_seq = Suc 0, chunk_offset = 6,
        chunk_text = '' jours''\<rparr>]
     ''combien de jours'' =
     \<lparr>resp_tenant = ''tenantA'', resp_answer = ''sous 5 j'',
       sources =
         [\<lparr>src_chunk = \<lparr>chunk_owner = ''tenantA'', chunk_doc = ''a.txt'', chunk_seq = 0,
                         chunk_offset = 0, chunk_text = ''sous 5 j''\<rparr>,
            src_score = 1\<rparr>,
          \<lparr>src_chunk = \<lparr>chunk_owner = ''tenantA'', chunk_doc = ''a.txt'', chunk_seq = 1,
                         chunk_offset = 6, chunk_text = '' jours''\<rparr>,
            src_score = 1\<rparr>],
       resp_no_answer = False, resp_degraded = True\<rparr>"
  by (simp add: answer_query_def retrieve_def semantic_query_def lexical_query_def rank_def
      ranks_before_def synthesize_def build_context_def example_params_def)

lemma example_answers:
  "answers (engine_run example_params example_events) =
     [\<lparr>by_credential = ''tenantA_key'', to_question = ''combien de jours'',
        outcome = Inr \<lparr>resp_tenant = ''tenantA'', resp_answer = [], resp_sources = [],
                        resp_no_answer = True, resp_degraded = False\<rparr>\<rparr>,
      \<lparr>by_credential = ''tenantA_key'', to_question = ''combien de jours'',
        outcome =
          Inr \<lparr>resp_tenant = ''tenantA'', resp_answer = ''sous 5 j'',
                sources =
                  [\<lparr>src_chunk = \<lparr>chunk_owner = ''tenantA'', chunk_doc = ''a.txt'', chunk_seq = 0,
                                  chunk_offset = 0, chunk_text = ''sous 5 j''\<rparr>,
                     src_score = 1\<rparr>,
                   \<lparr>src_chunk = \<lparr>chunk_owner = ''tenantA'', chunk_doc = ''a.txt'', chunk_seq = 1,
                                  chunk_offset = 6, chunk_text = '' jours''\<rparr>,
                     src_score = 1\<rparr>],
                resp_no_answer = False, resp_degraded = True\<rparr>\<rparr>]"
  by (simp add: engine_run_def example_events_def engine_init_def resolve_A resolve_B prepare_A
      prepare_B remove_nth_def supersede_def answer_empty answer_A)

text \<open>
  Claim C1.  Let a credential be registered to tenant \<open>A\<close>, and let \<open>B\<close> be another tenant.
  After any interleaving of ingestions and queries of any tenants, every response given
  to a query with that credential names \<open>A\<close> as its tenant, and every source in it is a
  chunk owned by \<open>A\<close>, hence none is owned by \<open>B\<close>.
\<close>

theorem tenant_isolation:
  assumes "registry p c = Some A" and "A \<noteq> B"
    and "a \<in> set (answers (engine_run p events))"
    and "by_credential a = c" and "outcome a = Inr resp"
  shows "resp_tenant resp = A
       \<and> (\<forall>s \<in> set (resp_sources resp).
            chunk_owner (src_chunk s) = A \<and> chunk_owner (src_chunk s) \<noteq> B)"
  using engine_run_inv[of p events] assms
  by (auto simp: engine_inv_def)

theorem tenant_isolation_witness:
  "\<exists>a \<in> set (answers (engine_run example_params example_events)).
     \<exists>resp. by_credential a = ''tenantA_key'' \<and> outcome a = Inr resp \<and> resp_sources resp \<noteq> []
       \<and> resp_tenant resp = ''tenantA''
       \<and> (\<forall>s \<in> set (resp_sources resp).
             chunk_owner (src_chunk s) = ''tenantA'' \<and> chunk_owner (src_chunk s) \<noteq> ''tenantB'')"
proof -
  define resp where "resp =
     \<lparr>resp_tenant = ''tenantA'', resp_answer = ''sous 5 j'',
       sources =
         [\<lparr>src_chunk = \<lparr>chunk_owner = ''tenantA'', chunk_doc = ''a.txt'', chunk_seq = 0,
                         chunk_offset = 0, chunk_text = ''sous 5 j''\<rparr>,
            src_score = 1\<rparr>,
          \<lparr>src_chunk = \<lparr>chunk_owner = ''tenantA'', chunk_doc = ''a.txt'', chunk_seq = 1,
                         chunk_offset = 6, chunk_text = '' jours''\<rparr>,
            src_score = 1\<rparr>],
       resp_no_answer = False, resp_degraded = True\<rparr>"
  define a where "a =
     \<lparr>by_credential = ''tenantA_key'', to_question = ''combien de jours'', outcome = Inr resp\<rparr>"
  have reg: "registry example_params ''tenantA_key'' = Some ''tenantA''"
    by (simp add: example_params_def)
  have ne: "''tenantA'' \<noteq> ''tenantB''"
    by simp
  have mem: "a \<in> set (answers (engine_run example_params example_events))"
    by (simp add: example_answers a_def resp_def)
  have c: "by_credential a = ''tenantA_key''" and o: "outcome a = Inr resp"
    by (simp_all add: a_def)
  have nonempty: "resp_sources resp \<noteq> []"
    by (simp add: resp_def)
  from tenant_isolation[OF reg ne mem c o] mem c o nonempty show ?thesis
    by blast
qed

end
